theory Spec2Isabelle
  imports Main
begin

section \<open>The DistilBERT checkpoint conversion script\<close>

text \<open>
  A shallow embedding of \<^verbatim>\<open>tools/checkpoint_conversion/convert_distilbert_checkpoints.py\<close>.
  Tensors are a shape with row-major data, the source state dictionary is an
  association list, the destination model is a map from layer names to named
  variables, and every exception of the script is a value of \<open>error\<close>.
\<close>

subsection \<open>Exceptions\<close>

datatype error =
    KeyError string
  | TypeError string
  | IndexError string
  | RuntimeError string
  | ValueError string
  | AttributeError string
  | NoSuchLayer string
  | ShapeMismatch string string "nat list" "nat list"
  | ConnectionError string
  | JSONDecodeError
  | FileNotFoundError string
  | NotADirectoryError string
  | IsADirectoryError string
  | UsageError string
  | LibraryError string

subsection \<open>Decimal formatting of a layer index\<close>

text \<open>The f-strings \<^verbatim>\<open>f"transformer_layer_{i}"\<close> print the loop index in decimal.\<close>

definition digit_char :: "nat \<Rightarrow> char" where
  "digit_char d = ''0123456789'' ! d"

function str_nat :: "nat \<Rightarrow> string" where
  "str_nat n = (if n < 10 then [digit_char n] else str_nat (n div 10) @ [digit_char (n mod 10)])"
  by pat_completeness auto
termination
  by (relation "measure id") auto

declare str_nat.simps [simp del]

subsection \<open>Tensors\<close>

record 'a tensor =
  shape :: "nat list"
  data :: "'a list"

definition wf_tensor :: "'a tensor \<Rightarrow> bool" where
  "wf_tensor t = (length (data t) = prod_list (shape t))"

text \<open>Row-major element access of a matrix, a rank-3 tensor and a vector.\<close>

definition at1 :: "'a tensor \<Rightarrow> nat \<Rightarrow> 'a" where
  "at1 t i = data t ! i"

definition at2 :: "'a tensor \<Rightarrow> nat \<Rightarrow> nat \<Rightarrow> 'a" where
  "at2 t i j = data t ! (i * (shape t ! 1) + j)"

definition at3 :: "'a tensor \<Rightarrow> nat \<Rightarrow> nat \<Rightarrow> nat \<Rightarrow> 'a" where
  "at3 t i j k = data t ! ((i * (shape t ! 1) + j) * (shape t ! 2) + k)"

text \<open>
  \<^verbatim>\<open>Tensor.transpose(1, 0)\<close> swaps the first two dimensions and raises on a tensor of
  rank below two. The element at \<open>(j, i, k)\<close> of the result is the element at
  \<open>(i, j, k)\<close> of the argument; \<open>m\<close> is the size of the trailing dimensions.
\<close>

definition transpose_1_0 :: "'a tensor \<Rightarrow> error + 'a tensor" where
  "transpose_1_0 t =
     (case shape t of
        r # c # rest \<Rightarrow>
          (let m = prod_list rest in
           Inr \<lparr>shape = c # r # rest,
                data = map (\<lambda>p. data t ! ((((p div m) mod r) * c + (p div m) div r) * m + p mod m))
                           [0..<c * r * m]\<rparr>)
      | _ \<Rightarrow> Inl (IndexError ''Dimension out of range''))"

text \<open>
  The size inference of \<^verbatim>\<open>Tensor.reshape\<close>: one pass over the requested
  dimensions that multiplies the given ones and remembers the position of a \<open>-1\<close>,
  then the check of the element count.
\<close>

fun infer_scan :: "int list \<Rightarrow> nat \<Rightarrow> bool \<Rightarrow> error + (nat \<times> bool)" where
  "infer_scan [] newsize infer_dim = Inr (newsize, infer_dim)"
| "infer_scan (d # ds) newsize infer_dim =
     (if d = - 1 then
        (if infer_dim then Inl (RuntimeError ''only one dimension can be inferred'')
         else infer_scan ds newsize True)
      else if 0 \<le> d then infer_scan ds (newsize * nat d) infer_dim
      else Inl (RuntimeError ''invalid shape dimension''))"

definition infer_size :: "int list \<Rightarrow> nat \<Rightarrow> error + nat list" where
  "infer_size shp n =
     (case infer_scan shp 1 False of
        Inl e \<Rightarrow> Inl e
      | Inr (newsize, infer_dim) \<Rightarrow>
          (if n = newsize \<or> (infer_dim \<and> 0 < newsize \<and> n mod newsize = 0) then
             (if infer_dim then
                (if newsize = 0 then Inl (RuntimeError ''cannot reshape tensor of 0 elements'')
                 else Inr (map (\<lambda>d. if d = - 1 then n div newsize else nat d) shp))
              else Inr (map nat shp))
           else Inl (RuntimeError ''shape is invalid for input size'')))"

text \<open>
  A value read from \<^verbatim>\<open>config.json\<close>: a Python integer, or anything else (a float such
  as the dropout rate, a string, a list), kept as its text.
\<close>

datatype jval = JInt int | JOther string

fun jints :: "jval list \<Rightarrow> int list option" where
  "jints [] = Some []"
| "jints (JInt n # vs) = (case jints vs of None \<Rightarrow> None | Some ns \<Rightarrow> Some (n # ns))"
| "jints (JOther s # vs) = None"

definition reshape :: "jval list \<Rightarrow> 'a tensor \<Rightarrow> error + 'a tensor" where
  "reshape dims t =
     (case jints dims of
        None \<Rightarrow> Inl (TypeError ''reshape(): argument shape must be tuple of ints'')
      | Some shp \<Rightarrow>
          (case infer_size shp (length (data t)) of
             Inl e \<Rightarrow> Inl e
           | Inr s \<Rightarrow> Inr \<lparr>shape = s, data = data t\<rparr>))"

subsection \<open>The two models\<close>

text \<open>The source model's state dictionary, in its key order.\<close>

type_synonym 'a state_dict = "(string \<times> 'a tensor) list"

text \<open>
  The destination model: its \<^verbatim>\<open>num_layers\<close> attribute and its layers by name, each
  layer a map from an attribute path (such as
  \<^verbatim>\<open>_self_attention_layer._query_dense.kernel\<close>) to the variable found there.
\<close>

record 'a keras_model =
  num_layers :: nat
  layers :: "string \<rightharpoonup> (string \<rightharpoonup> 'a tensor)"

text \<open>\<^verbatim>\<open>get_layer(name)\<close> followed by the attribute path.\<close>

definition get_variable :: "'a keras_model \<Rightarrow> string \<Rightarrow> string \<Rightarrow> error + 'a tensor" where
  "get_variable m l a =
     (case layers m l of
        None \<Rightarrow> Inl (NoSuchLayer l)
      | Some attrs \<Rightarrow>
          (case attrs a of
             None \<Rightarrow> Inl (AttributeError a)
           | Some v \<Rightarrow> Inr v))"

definition set_variable :: "'a keras_model \<Rightarrow> string \<Rightarrow> string \<Rightarrow> 'a tensor \<Rightarrow> 'a keras_model" where
  "set_variable m l a t =
     m\<lparr>layers := (layers m)(l \<mapsto> (case layers m l of None \<Rightarrow> Map.empty | Some attrs \<Rightarrow> attrs)(a \<mapsto> t))\<rparr>"

text \<open>\<^verbatim>\<open>variable.assign(value)\<close>: the value must have the variable's shape.\<close>

definition assign :: "'a keras_model \<Rightarrow> string \<Rightarrow> string \<Rightarrow> 'a tensor \<Rightarrow> 'a tensor \<Rightarrow> error + 'a keras_model" where
  "assign m l a v t =
     (if shape t = shape v then Inr (set_variable m l a t)
      else Inl (ShapeMismatch l a (shape v) (shape t)))"

subsection \<open>The configuration read by \<^verbatim>\<open>convert_checkpoints\<close>\<close>

record config =
  cfg_vocabulary_size :: jval
  cfg_num_layers :: jval
  cfg_num_heads :: jval
  cfg_hidden_dim :: jval
  cfg_intermediate_dim :: jval
  cfg_dropout :: jval
  cfg_max_sequence_length :: jval

subsection \<open>The weight assignments\<close>

text \<open>
  One statement of the remapping: the destination layer and attribute path, the key of
  the source tensor, and the chain of tensor methods applied to it before
  \<^verbatim>\<open>assign\<close>.
\<close>

datatype tensor_op = Transpose10 | Reshape "jval list" | Numpy

record assignment =
  dst_layer :: string
  dst_attr :: string
  src_key :: string
  ops :: "tensor_op list"

fun apply_op :: "tensor_op \<Rightarrow> 'a tensor \<Rightarrow> error + 'a tensor" where
  "apply_op Transpose10 t = transpose_1_0 t"
| "apply_op (Reshape dims) t = reshape dims t"
| "apply_op Numpy t = Inr t"

fun apply_ops :: "tensor_op list \<Rightarrow> 'a tensor \<Rightarrow> error + 'a tensor" where
  "apply_ops [] t = Inr t"
| "apply_ops (f # fs) t = (case apply_op f t of Inl e \<Rightarrow> Inl e | Inr t' \<Rightarrow> apply_ops fs t')"

text \<open>
  A statement \<^verbatim>\<open>model.get_layer(l).a.assign(hf_wts[k].op1().op2())\<close> evaluates the
  destination variable first, then the argument, then assigns.
\<close>

definition run_assignment :: "'a state_dict \<Rightarrow> assignment \<Rightarrow> 'a keras_model \<Rightarrow> error + 'a keras_model" where
  "run_assignment hf_wts s m =
     (case get_variable m (dst_layer s) (dst_attr s) of
        Inl e \<Rightarrow> Inl e
      | Inr v \<Rightarrow>
          (case map_of hf_wts (src_key s) of
             None \<Rightarrow> Inl (KeyError (src_key s))
           | Some t \<Rightarrow>
               (case apply_ops (ops s) t of
                  Inl e \<Rightarrow> Inl e
                | Inr t' \<Rightarrow> assign m (dst_layer s) (dst_attr s) v t')))"

fun run_assignments :: "'a state_dict \<Rightarrow> assignment list \<Rightarrow> 'a keras_model \<Rightarrow> error + 'a keras_model" where
  "run_assignments hf_wts [] m = Inr m"
| "run_assignments hf_wts (s # ss) m =
     (case run_assignment hf_wts s m of
        Inl e \<Rightarrow> Inl e
      | Inr m' \<Rightarrow> run_assignments hf_wts ss m')"

text \<open>The four assignments before the loop (lines 106 to 122).\<close>

definition embedding_assignments :: "assignment list" where
  "embedding_assignments =
     [\<lparr>dst_layer = ''token_and_position_embedding'', dst_attr = ''token_embedding.embeddings'',
       src_key = ''embeddings.word_embeddings.weight'', ops = []\<rparr>,
      \<lparr>dst_layer = ''token_and_position_embedding'',
       dst_attr = ''position_embedding.position_embeddings'',
       src_key = ''embeddings.position_embeddings.weight'', ops = []\<rparr>,
      \<lparr>dst_layer = ''embeddings_layer_norm'', dst_attr = ''gamma'',
       src_key = ''embeddings.LayerNorm.weight'', ops = []\<rparr>,
      \<lparr>dst_layer = ''embeddings_layer_norm'', dst_attr = ''beta'',
       src_key = ''embeddings.LayerNorm.bias'', ops = []\<rparr>]"

definition layer_name :: "nat \<Rightarrow> string" where
  "layer_name i = ''transformer_layer_'' @ str_nat i"

definition hf_key :: "nat \<Rightarrow> string \<Rightarrow> string" where
  "hf_key i suffix = ''transformer.layer.'' @ str_nat i @ suffix"

text \<open>The body of the loop over the layers (lines 125 to 233), in source order.\<close>

definition layer_assignments :: "config \<Rightarrow> nat \<Rightarrow> assignment list" where
  "layer_assignments cfg i =
     [\<lparr>dst_layer = layer_name i, dst_attr = ''_self_attention_layer._query_dense.kernel'',
       src_key = hf_key i ''.attention.q_lin.weight'',
       ops = [Transpose10, Reshape [cfg_hidden_dim cfg, cfg_num_heads cfg, JInt (- 1)], Numpy]\<rparr>,
      \<lparr>dst_layer = layer_name i, dst_attr = ''_self_attention_layer._query_dense.bias'',
       src_key = hf_key i ''.attention.q_lin.bias'',
       ops = [Reshape [cfg_num_heads cfg, JInt (- 1)], Numpy]\<rparr>,
      \<lparr>dst_layer = layer_name i, dst_attr = ''_self_attention_layer._key_dense.kernel'',
       src_key = hf_key i ''.attention.k_lin.weight'',
       ops = [Transpose10, Reshape [cfg_hidden_dim cfg, cfg_num_heads cfg, JInt (- 1)], Numpy]\<rparr>,
      \<lparr>dst_layer = layer_name i, dst_attr = ''_self_attention_layer._key_dense.bias'',
       src_key = hf_key i ''.attention.k_lin.bias'',
       ops = [Reshape [cfg_num_heads cfg, JInt (- 1)], Numpy]\<rparr>,
      \<lparr>dst_layer = layer_name i, dst_attr = ''_self_attention_layer._value_dense.kernel'',
       src_key = hf_key i ''.attention.v_lin.weight'',
       ops = [Transpose10, Reshape [cfg_hidden_dim cfg, cfg_num_heads cfg, JInt (- 1)], Numpy]\<rparr>,
      \<lparr>dst_layer = layer_name i, dst_attr = ''_self_attention_layer._value_dense.bias'',
       src_key = hf_key i ''.attention.v_lin.bias'',
       ops = [Reshape [cfg_num_heads cfg, JInt (- 1)], Numpy]\<rparr>,
      \<lparr>dst_layer = layer_name i, dst_attr = ''_self_attention_layer._output_dense.kernel'',
       src_key = hf_key i ''.attention.out_lin.weight'',
       ops = [Transpose10, Reshape [cfg_num_heads cfg, JInt (- 1), cfg_hidden_dim cfg], Numpy]\<rparr>,
      \<lparr>dst_layer = layer_name i, dst_attr = ''_self_attention_layer._output_dense.bias'',
       src_key = hf_key i ''.attention.out_lin.bias'', ops = [Numpy]\<rparr>,
      \<lparr>dst_layer = layer_name i, dst_attr = ''_self_attention_layer_norm.gamma'',
       src_key = hf_key i ''.sa_layer_norm.weight'', ops = [Numpy]\<rparr>,
      \<lparr>dst_layer = layer_name i, dst_attr = ''_self_attention_layer_norm.beta'',
       src_key = hf_key i ''.sa_layer_norm.bias'', ops = [Numpy]\<rparr>,
      \<lparr>dst_layer = layer_name i, dst_attr = ''_feedforward_intermediate_dense.kernel'',
       src_key = hf_key i ''.ffn.lin1.weight'', ops = [Transpose10, Numpy]\<rparr>,
      \<lparr>dst_layer = layer_name i, dst_attr = ''_feedforward_intermediate_dense.bias'',
       src_key = hf_key i ''.ffn.lin1.bias'', ops = [Numpy]\<rparr>,
      \<lparr>dst_layer = layer_name i, dst_attr = ''_feedforward_output_dense.kernel'',
       src_key = hf_key i ''.ffn.lin2.weight'', ops = [Transpose10, Numpy]\<rparr>,
      \<lparr>dst_layer = layer_name i, dst_attr = ''_feedforward_output_dense.bias'',
       src_key = hf_key i ''.ffn.lin2.bias'', ops = [Numpy]\<rparr>,
      \<lparr>dst_layer = layer_name i, dst_attr = ''_feedforward_layer_norm.gamma'',
       src_key = hf_key i ''.output_layer_norm.weight'', ops = [Numpy]\<rparr>,
      \<lparr>dst_layer = layer_name i, dst_attr = ''_feedforward_layer_norm.beta'',
       src_key = hf_key i ''.output_layer_norm.bias'', ops = [Numpy]\<rparr>]"

text \<open>\<^verbatim>\<open>for i in range(keras_hub_model.num_layers)\<close>, stopping at the first exception.\<close>

fun layer_loop :: "config \<Rightarrow> 'a state_dict \<Rightarrow> nat list \<Rightarrow> 'a keras_model \<Rightarrow> error + 'a keras_model" where
  "layer_loop cfg hf_wts [] m = Inr m"
| "layer_loop cfg hf_wts (i # is) m =
     (case run_assignments hf_wts (layer_assignments cfg i) m of
        Inl e \<Rightarrow> Inl e
      | Inr m' \<Rightarrow> layer_loop cfg hf_wts is m')"

text \<open>The weight remapping of \<^verbatim>\<open>convert_checkpoints\<close> (lines 106 to 233).\<close>

definition remap_weights :: "config \<Rightarrow> 'a state_dict \<Rightarrow> 'a keras_model \<Rightarrow> error + 'a keras_model" where
  "remap_weights cfg hf_wts m =
     (case run_assignments hf_wts embedding_assignments m of
        Inl e \<Rightarrow> Inl e
      | Inr m' \<Rightarrow> layer_loop cfg hf_wts [0..<num_layers m'] m')"

subsection \<open>Definitions used by the statements\<close>

definition slot :: "assignment \<Rightarrow> string \<times> string" where
  "slot s = (dst_layer s, dst_attr s)"

definition all_assignments :: "config \<Rightarrow> nat \<Rightarrow> assignment list" where
  "all_assignments cfg n = embedding_assignments @ concat (map (layer_assignments cfg) [0..<n])"

definition digit_val :: "char \<Rightarrow> nat" where
  "digit_val c = length (takeWhile (\<lambda>x. x \<noteq> c) ''0123456789'')"

definition nat_of_str :: "string \<Rightarrow> nat" where
  "nat_of_str s = foldl (\<lambda>acc c. 10 * acc + digit_val c) 0 s"

definition layer_attrs :: "string list" where
  "layer_attrs =
     [''_self_attention_layer._query_dense.kernel'', ''_self_attention_layer._query_dense.bias'',
      ''_self_attention_layer._key_dense.kernel'', ''_self_attention_layer._key_dense.bias'',
      ''_self_attention_layer._value_dense.kernel'', ''_self_attention_layer._value_dense.bias'',
      ''_self_attention_layer._output_dense.kernel'', ''_self_attention_layer._output_dense.bias'',
      ''_self_attention_layer_norm.gamma'', ''_self_attention_layer_norm.beta'',
      ''_feedforward_intermediate_dense.kernel'', ''_feedforward_intermediate_dense.bias'',
      ''_feedforward_output_dense.kernel'', ''_feedforward_output_dense.bias'',
      ''_feedforward_layer_norm.gamma'', ''_feedforward_layer_norm.beta'']"

definition has_tensor :: "'a state_dict \<Rightarrow> string \<Rightarrow> nat list \<Rightarrow> bool" where
  "has_tensor hf_wts k s =
     (case map_of hf_wts k of None \<Rightarrow> False | Some t \<Rightarrow> shape t = s \<and> wf_tensor t)"

definition has_variable :: "'a keras_model \<Rightarrow> string \<Rightarrow> string \<Rightarrow> nat list \<Rightarrow> bool" where
  "has_variable m l a s =
     (case get_variable m l a of Inl e \<Rightarrow> False | Inr v \<Rightarrow> shape v = s)"

record dims =
  dim_vocab :: nat
  dim_positions :: nat
  dim_hidden :: nat
  dim_heads :: nat
  dim_intermediate :: nat

definition hf_layer_shapes :: "dims \<Rightarrow> (string \<times> nat list) list" where
  "hf_layer_shapes d =
     (let H = dim_hidden d; I = dim_intermediate d in
      [(''.attention.q_lin.weight'', [H, H]), (''.attention.q_lin.bias'', [H]),
       (''.attention.k_lin.weight'', [H, H]), (''.attention.k_lin.bias'', [H]),
       (''.attention.v_lin.weight'', [H, H]), (''.attention.v_lin.bias'', [H]),
       (''.attention.out_lin.weight'', [H, H]), (''.attention.out_lin.bias'', [H]),
       (''.sa_layer_norm.weight'', [H]), (''.sa_layer_norm.bias'', [H]),
       (''.ffn.lin1.weight'', [I, H]), (''.ffn.lin1.bias'', [I]),
       (''.ffn.lin2.weight'', [H, I]), (''.ffn.lin2.bias'', [H]),
       (''.output_layer_norm.weight'', [H]), (''.output_layer_norm.bias'', [H])])"

definition hf_embedding_shapes :: "dims \<Rightarrow> (string \<times> nat list) list" where
  "hf_embedding_shapes d =
     [(''embeddings.word_embeddings.weight'', [dim_vocab d, dim_hidden d]),
      (''embeddings.position_embeddings.weight'', [dim_positions d, dim_hidden d]),
      (''embeddings.LayerNorm.weight'', [dim_hidden d]),
      (''embeddings.LayerNorm.bias'', [dim_hidden d])]"

definition has_hf_shapes :: "dims \<Rightarrow> nat \<Rightarrow> 'a state_dict \<Rightarrow> bool" where
  "has_hf_shapes d L hf_wts =
     (list_all (\<lambda>(k, s). has_tensor hf_wts k s) (hf_embedding_shapes d) \<and>
      list_all (\<lambda>i. list_all (\<lambda>(k, s). has_tensor hf_wts (hf_key i k) s) (hf_layer_shapes d)) [0..<L])"

definition keras_layer_shapes :: "dims \<Rightarrow> (string \<times> nat list) list" where
  "keras_layer_shapes d =
     (let H = dim_hidden d; N = dim_heads d; I = dim_intermediate d in
      [(''_self_attention_layer._query_dense.kernel'', [H, N, H div N]),
       (''_self_attention_layer._query_dense.bias'', [N, H div N]),
       (''_self_attention_layer._key_dense.kernel'', [H, N, H div N]),
       (''_self_attention_layer._key_dense.bias'', [N, H div N]),
       (''_self_attention_layer._value_dense.kernel'', [H, N, H div N]),
       (''_self_attention_layer._value_dense.bias'', [N, H div N]),
       (''_self_attention_layer._output_dense.kernel'', [N, H div N, H]),
       (''_self_attention_layer._output_dense.bias'', [H]),
       (''_self_attention_layer_norm.gamma'', [H]),
       (''_self_attention_layer_norm.beta'', [H]),
       (''_feedforward_intermediate_dense.kernel'', [H, I]),
       (''_feedforward_intermediate_dense.bias'', [I]),
       (''_feedforward_output_dense.kernel'', [I, H]),
       (''_feedforward_output_dense.bias'', [H]),
       (''_feedforward_layer_norm.gamma'', [H]),
       (''_feedforward_layer_norm.beta'', [H])])"

definition keras_embedding_shapes :: "dims \<Rightarrow> ((string \<times> string) \<times> nat list) list" where
  "keras_embedding_shapes d =
     [((''token_and_position_embedding'', ''token_embedding.embeddings''), [dim_vocab d, dim_hidden d]),
      ((''token_and_position_embedding'', ''position_embedding.position_embeddings''),
       [dim_positions d, dim_hidden d]),
      ((''embeddings_layer_norm'', ''gamma''), [dim_hidden d]),
      ((''embeddings_layer_norm'', ''beta''), [dim_hidden d])]"

definition has_keras_shapes :: "dims \<Rightarrow> 'a keras_model \<Rightarrow> bool" where
  "has_keras_shapes d m =
     (list_all (\<lambda>((l, a), s). has_variable m l a s) (keras_embedding_shapes d) \<and>
      list_all (\<lambda>i. list_all (\<lambda>(a, s). has_variable m (layer_name i) a s) (keras_layer_shapes d))
        [0..<num_layers m])"

definition assignment_ok :: "'a state_dict \<Rightarrow> 'a keras_model \<Rightarrow> assignment \<Rightarrow> bool" where
  "assignment_ok sd m s =
     (\<exists>v t t'. get_variable m (dst_layer s) (dst_attr s) = Inr v \<and> map_of sd (src_key s) = Some t \<and>
        apply_ops (ops s) t = Inr t' \<and> shape t' = shape v)"

definition ramp :: "nat list \<Rightarrow> nat \<Rightarrow> nat tensor" where
  "ramp s k = \<lparr>shape = s, data = [k..<k + prod_list s]\<rparr>"

definition zeros :: "nat list \<Rightarrow> nat tensor" where
  "zeros s = \<lparr>shape = s, data = replicate (prod_list s) 0\<rparr>"

definition demo_dims :: dims where
  "demo_dims = \<lparr>dim_vocab = 1, dim_positions = 1, dim_hidden = 4, dim_heads = 2, dim_intermediate = 1\<rparr>"

definition demo_cfg :: config where
  "demo_cfg = \<lparr>cfg_vocabulary_size = JInt 1, cfg_num_layers = JInt 1, cfg_num_heads = JInt 2,
     cfg_hidden_dim = JInt 4, cfg_intermediate_dim = JInt 1, cfg_dropout = JOther ''0.1'',
     cfg_max_sequence_length = JInt 1\<rparr>"

definition demo_hf_wts :: "nat state_dict" where
  "demo_hf_wts =
     map (\<lambda>(k, s). (k, ramp s 1)) (hf_embedding_shapes demo_dims) @
     map (\<lambda>(k, s). (hf_key 0 k, ramp s 1)) (hf_layer_shapes demo_dims)"

definition demo_model :: "nat keras_model" where
  "demo_model =
     \<lparr>num_layers = 1,
      layers = map_of
        [(''token_and_position_embedding'',
            map_of [(''token_embedding.embeddings'', zeros [1, 4]),
                    (''position_embedding.position_embeddings'', zeros [1, 4])]),
         (''embeddings_layer_norm'', map_of [(''gamma'', zeros [4]), (''beta'', zeros [4])]),
         (''transformer_layer_0'', map_of (map (\<lambda>(a, s). (a, zeros s)) (keras_layer_shapes demo_dims)))]\<rparr>"

definition is_ok :: "error + 'b \<Rightarrow> bool" where
  "is_ok r = (case r of Inl e \<Rightarrow> False | Inr x \<Rightarrow> True)"

definition qkv_projections :: "(string \<times> string) list" where
  "qkv_projections = [(''q_lin'', ''_query_dense''), (''k_lin'', ''_key_dense''), (''v_lin'', ''_value_dense'')]"

definition fixed_op_chains :: "config \<Rightarrow> tensor_op list list" where
  "fixed_op_chains cfg =
     [[Numpy],
      [Transpose10, Numpy],
      [Reshape [cfg_num_heads cfg, JInt (- 1)], Numpy],
      [Transpose10, Reshape [cfg_hidden_dim cfg, cfg_num_heads cfg, JInt (- 1)], Numpy],
      [Transpose10, Reshape [cfg_num_heads cfg, JInt (- 1), cfg_hidden_dim cfg], Numpy]]"

definition changed_attrs :: "'a keras_model \<Rightarrow> 'a keras_model \<Rightarrow> string \<Rightarrow> string set" where
  "changed_attrs m m' l = {a. get_variable m' l a \<noteq> get_variable m l a}"

definition overwrites :: "'a state_dict \<Rightarrow> 'a keras_model \<Rightarrow> assignment \<Rightarrow> bool" where
  "overwrites hf_wts m s =
     (case map_of hf_wts (src_key s) of
        None \<Rightarrow> False
      | Some t \<Rightarrow>
          (case apply_ops (ops s) t of
             Inl e \<Rightarrow> False
           | Inr t' \<Rightarrow> get_variable m (dst_layer s) (dst_attr s) \<noteq> Inr t'))"

subsection \<open>The world outside the script\<close>

text \<open>
  What the script prints: a line of text, or a line that shows a value. The text of a
  printed dictionary, tensor or number is not modelled; the line carries the value.
\<close>

datatype 'a out_line =
    Line string
  | ConfigLine config
  | KeysLine "string list"
  | TensorLine string "'a tensor"
  | NumberLine string 'a

text \<open>A request as \<^verbatim>\<open>requests.get\<close> sends it: the arguments the caller gave.\<close>

record http_request =
  req_method :: string
  req_url :: string
  req_headers :: "(string \<times> string) list"
  req_auth :: "(string \<times> string) option"

text \<open>
  The state the script changes: the regular files and the directories under the working
  directory (by relative path, without a leading \<^verbatim>\<open>./\<close>), the requests sent, and the
  standard output.
\<close>

record 'a world =
  files :: "string \<rightharpoonup> string"
  dirs :: "string set"
  requests_sent :: "http_request list"
  stdout :: "'a out_line list"

type_synonym inputs = "(string \<times> int list list) list"

type_synonym preprocessor = "string list \<Rightarrow> error + inputs"

type_synonym hf_tokenizer = "string list \<Rightarrow> error + inputs"

record 'a hf_model =
  hf_state_dict :: "'a state_dict"
  hf_forward :: "inputs \<Rightarrow> error + 'a tensor"

datatype json_doc = JObject "(string \<times> jval) list" | JNotObject

text \<open>
  The services and libraries the script calls, which it does not define: the hub's
  answer to a GET (\<open>None\<close> when the network fails), the JSON parser, the MD5 digest, the
  constructors and loaders of the two frameworks, inference, the serialisation of the
  weights, and numpy's subtraction and mean.
\<close>

record 'a env =
  http_get :: "string \<Rightarrow> string option"
  json_loads :: "string \<Rightarrow> json_doc option"
  md5_hex :: "string \<Rightarrow> string"
  distilbert_preprocessor :: "string \<Rightarrow> error + preprocessor"
  auto_tokenizer :: "string \<Rightarrow> error + hf_tokenizer"
  backbone_from_preset :: "string \<Rightarrow> error + 'a keras_model"
  auto_model :: "string \<Rightarrow> error + 'a hf_model"
  keras_predict :: "'a keras_model \<Rightarrow> inputs \<Rightarrow> error + 'a tensor"
  h5_bytes :: "'a keras_model \<Rightarrow> string"
  np_subtract :: "'a tensor \<Rightarrow> 'a tensor \<Rightarrow> error + 'a tensor"
  np_mean :: "'a tensor \<Rightarrow> 'a"

subsection \<open>Sequencing with exceptions\<close>

type_synonym ('a, 'r) io = "'a world \<Rightarrow> (error + 'r) \<times> 'a world"

definition io_return :: "'r \<Rightarrow> ('a, 'r) io" where
  "io_return r w = (Inr r, w)"

definition io_raise :: "error \<Rightarrow> ('a, 'r) io" where
  "io_raise e w = (Inl e, w)"

definition io_bind :: "('a, 'r) io \<Rightarrow> ('r \<Rightarrow> ('a, 's) io) \<Rightarrow> ('a, 's) io" where
  "io_bind f g w = (case f w of (Inl e, w') \<Rightarrow> (Inl e, w') | (Inr r, w') \<Rightarrow> g r w')"

definition io_then :: "('a, unit) io \<Rightarrow> ('a, 's) io \<Rightarrow> ('a, 's) io" where
  "io_then f g = io_bind f (\<lambda>_. g)"

definition io_lift :: "error + 'r \<Rightarrow> ('a, 'r) io" where
  "io_lift x w = (x, w)"

definition print :: "'a out_line \<Rightarrow> ('a, unit) io" where
  "print l w = (Inr (), w\<lparr>stdout := stdout w @ [l]\<rparr>)"

text \<open>\<^verbatim>\<open>print("\n-> ...")\<close>: an empty line, then the text.\<close>

definition print_header :: "string \<Rightarrow> ('a, unit) io" where
  "print_header s = io_then (print (Line [])) (print (Line s))"

subsection \<open>Paths and files\<close>

definition norm_path :: "string \<Rightarrow> string" where
  "norm_path p = (if take 2 p = ''./'' then drop 2 p else p)"

definition path_join :: "string \<Rightarrow> string \<Rightarrow> string" where
  "path_join a b =
     (if take 1 b = ''/'' then b
      else if a = [] \<or> last a = CHR ''/'' then a @ b
      else a @ ''/'' @ b)"

definition dirname :: "string \<Rightarrow> string" where
  "dirname p = rev (drop 1 (dropWhile (\<lambda>c. c \<noteq> CHR ''/'') (rev p)))"

definition path_exists :: "'a world \<Rightarrow> string \<Rightarrow> bool" where
  "path_exists w p = (norm_path p \<in> dirs w \<or> files w (norm_path p) \<noteq> None)"

definition makedirs :: "string \<Rightarrow> ('a, unit) io" where
  "makedirs p w = (Inr (), w\<lparr>dirs := insert (norm_path p) (dirs w)\<rparr>)"

text \<open>
  \<^verbatim>\<open>open(path, "wb").write(content)\<close>: the directory of the path must exist and the
  path must not be a directory.
\<close>

definition open_write :: "string \<Rightarrow> string \<Rightarrow> ('a, unit) io" where
  "open_write path content w =
     (let p = norm_path path; d = dirname p in
      if d \<noteq> [] \<and> d \<notin> dirs w then
        (Inl (if files w d \<noteq> None then NotADirectoryError path else FileNotFoundError path), w)
      else if p \<in> dirs w then (Inl (IsADirectoryError path), w)
      else (Inr (), w\<lparr>files := (files w)(p \<mapsto> content)\<rparr>))"

definition open_read :: "string \<Rightarrow> ('a, string) io" where
  "open_read path w =
     (case files w (norm_path path) of
        None \<Rightarrow> (Inl (FileNotFoundError path), w)
      | Some content \<Rightarrow> (Inr content, w))"

text \<open>\<^verbatim>\<open>requests.get(url)\<close> with no other argument.\<close>

definition requests_get :: "'a env \<Rightarrow> string \<Rightarrow> ('a, string) io" where
  "requests_get env url w =
     (let w' = w\<lparr>requests_sent := requests_sent w @
                 [\<lparr>req_method = ''GET'', req_url = url, req_headers = [], req_auth = None\<rparr>]\<rparr> in
      case http_get env url of
        None \<Rightarrow> (Inl (ConnectionError url), w')
      | Some content \<Rightarrow> (Inr content, w'))"

text \<open>
  Modelled from the spec: \<^verbatim>\<open>get_md5_checksum\<close> of
  \<^verbatim>\<open>tools/checkpoint_conversion/checkpoint_conversion_utils.py\<close>, which the script
  imports: the MD5 checksum of the file at the path.
\<close>

definition get_md5_checksum :: "'a env \<Rightarrow> string \<Rightarrow> ('a, string) io" where
  "get_md5_checksum env path = io_bind (open_read path) (\<lambda>content. io_return (md5_hex env content))"

subsection \<open>The script\<close>

definition PRESET_MAP :: "(string \<times> string) list" where
  "PRESET_MAP =
     [(''distil_bert_base_en_uncased'', ''distilbert-base-uncased''),
      (''distil_bert_base_en_cased'', ''distilbert-base-cased''),
      (''distil_bert_base_multi_cased'', ''distilbert-base-multilingual-cased'')]"

definition EXTRACT_DIR :: "string \<Rightarrow> string" where
  "EXTRACT_DIR preset = ''./'' @ preset"

definition hub_url :: "string \<Rightarrow> string \<Rightarrow> string" where
  "hub_url hf_model_name file = ''https://huggingface.co/'' @ hf_model_name @ ''/raw/main/'' @ file"

definition download_files :: "'a env \<Rightarrow> string \<Rightarrow> string \<Rightarrow> ('a, unit) io" where
  "download_files env preset hf_model_name =
     io_then (print (Line ''-> Download original vocab and config.''))
       (let extract_dir = EXTRACT_DIR preset in
        io_then (\<lambda>w. if \<not> path_exists w extract_dir then makedirs extract_dir w else (Inr (), w))
          (let config_path = path_join extract_dir ''config.json'' in
           io_bind (requests_get env (hub_url hf_model_name ''config.json'')) (\<lambda>response.
           io_then (open_write config_path response)
          (io_then (print (Line (''`'' @ config_path @ ''`'')))
          (let vocab_path = path_join extract_dir ''vocab.txt'' in
           io_bind (requests_get env (hub_url hf_model_name ''vocab.txt'')) (\<lambda>response.
           io_then (open_write vocab_path response)
                   (print (Line (''`'' @ vocab_path @ ''`'')))))))))"

definition define_preprocessor :: "'a env \<Rightarrow> string \<Rightarrow> string \<Rightarrow> ('a, preprocessor \<times> hf_tokenizer) io" where
  "define_preprocessor env preset hf_model_name =
     io_then (print_header ''-> Define the tokenizers.'')
       (let extract_dir = EXTRACT_DIR preset;
            vocab_path = path_join extract_dir ''vocab.txt'' in
        io_bind (open_read vocab_path) (\<lambda>vocabulary.
        io_bind (io_lift (distilbert_preprocessor env vocabulary)) (\<lambda>keras_hub_preprocessor.
        io_bind (io_lift (auto_tokenizer env hf_model_name)) (\<lambda>hf_tokenizer.
        io_then (print_header ''-> Print MD5 checksum of the vocab files.'')
       (io_bind (get_md5_checksum env vocab_path) (\<lambda>checksum.
        io_then (print (Line (''`'' @ vocab_path @ ''` md5sum:  '' @ checksum)))
                (io_return (keras_hub_preprocessor, hf_tokenizer))))))))"

definition getitem :: "json_doc \<Rightarrow> string \<Rightarrow> error + jval" where
  "getitem doc k =
     (case doc of
        JNotObject \<Rightarrow> Inl (TypeError k)
      | JObject kvs \<Rightarrow> (case map_of kvs k of None \<Rightarrow> Inl (KeyError k) | Some v \<Rightarrow> Inr v))"

text \<open>Lines 83 to 92: the seven entries of \<^verbatim>\<open>cfg\<close>, read in this order.\<close>

definition build_config :: "json_doc \<Rightarrow> error + config" where
  "build_config pt_cfg =
     (case getitem pt_cfg ''vocab_size'' of Inl e \<Rightarrow> Inl e | Inr vocabulary_size \<Rightarrow>
      case getitem pt_cfg ''n_layers'' of Inl e \<Rightarrow> Inl e | Inr n_layers \<Rightarrow>
      case getitem pt_cfg ''n_heads'' of Inl e \<Rightarrow> Inl e | Inr n_heads \<Rightarrow>
      case getitem pt_cfg ''dim'' of Inl e \<Rightarrow> Inl e | Inr dim \<Rightarrow>
      case getitem pt_cfg ''hidden_dim'' of Inl e \<Rightarrow> Inl e | Inr hidden_dim \<Rightarrow>
      case getitem pt_cfg ''dropout'' of Inl e \<Rightarrow> Inl e | Inr dropout \<Rightarrow>
      case getitem pt_cfg ''max_position_embeddings'' of Inl e \<Rightarrow> Inl e | Inr max_pos \<Rightarrow>
        Inr \<lparr>cfg_vocabulary_size = vocabulary_size, cfg_num_layers = n_layers,
             cfg_num_heads = n_heads, cfg_hidden_dim = dim, cfg_intermediate_dim = hidden_dim,
             cfg_dropout = dropout, cfg_max_sequence_length = max_pos\<rparr>)"

text \<open>
  \<^verbatim>\<open>str.endswith\<close>, and \<^verbatim>\<open>model.save_weights(filepath)\<close> of Keras 3, the Keras that
  KerasHub runs on: the file name must end in \<^verbatim>\<open>.weights.h5\<close>, or the call raises
  \<^verbatim>\<open>ValueError\<close> before it writes.
\<close>

definition ends_with :: "string \<Rightarrow> string \<Rightarrow> bool" where
  "ends_with suffix s = (drop (length s - length suffix) s = suffix)"

definition save_weights :: "'a env \<Rightarrow> 'a keras_model \<Rightarrow> string \<Rightarrow> ('a, unit) io" where
  "save_weights env m filepath =
     (if \<not> ends_with ''.weights.h5'' filepath
      then io_raise (ValueError ''The filename must end in `.weights.h5`.'')
      else open_write filepath (h5_bytes env m))"

definition convert_checkpoints :: "'a env \<Rightarrow> string \<Rightarrow> 'a keras_model \<Rightarrow> 'a hf_model \<Rightarrow> ('a, 'a keras_model) io" where
  "convert_checkpoints env preset keras_hub_model hf_model =
     io_then (print_header ''-> Convert original weights to KerasHub format.'')
       (let extract_dir = EXTRACT_DIR preset;
            config_path = path_join extract_dir ''config.json'' in
        io_bind (open_read config_path) (\<lambda>text.
        io_bind (io_lift (case json_loads env text of None \<Rightarrow> Inl JSONDecodeError | Some d \<Rightarrow> Inr d)) (\<lambda>pt_cfg.
        io_bind (io_lift (build_config pt_cfg)) (\<lambda>cfg.
        io_then (print (ConfigLine cfg))
       (let hf_wts = hf_state_dict hf_model in
        io_then (print (Line ''Original weights:''))
       (io_then (print (KeysLine (map fst hf_wts)))
       (io_bind (io_lift (remap_weights cfg hf_wts keras_hub_model)) (\<lambda>keras_hub_model.
        io_then (print_header (''-> Save KerasHub model weights to `'' @ preset @ ''.h5`.''))
       (io_then (save_weights env keras_hub_model (preset @ ''.h5''))
                (io_return keras_hub_model))))))))))"

definition sample_text :: "string list" where
  "sample_text = [''cricket is awesome, easily the best sport in the world!'']"

text \<open>\<^verbatim>\<open>x[0, 0, :10]\<close>: the first ten entries along the third axis of the first row.\<close>

definition index_0_0_first10 :: "'a tensor \<Rightarrow> error + 'a tensor" where
  "index_0_0_first10 t =
     (case shape t of
        d0 # d1 # d2 # rest \<Rightarrow>
          (if d0 = 0 \<or> d1 = 0 then Inl (IndexError ''index 0 is out of bounds'')
           else Inr \<lparr>shape = min 10 d2 # rest, data = take (min 10 d2 * prod_list rest) (data t)\<rparr>)
      | _ \<Rightarrow> Inl (IndexError ''too many indices''))"

definition check_output ::
  "'a env \<Rightarrow> string \<Rightarrow> preprocessor \<Rightarrow> 'a keras_model \<Rightarrow> hf_tokenizer \<Rightarrow> 'a hf_model \<Rightarrow> ('a, unit) io" where
  "check_output env preset keras_hub_preprocessor keras_hub_model hf_tokenizer hf_model =
     io_then (print_header ''-> Check the outputs.'')
       (io_bind (io_lift (keras_hub_preprocessor sample_text)) (\<lambda>keras_hub_inputs.
        io_bind (io_lift (keras_predict env keras_hub_model keras_hub_inputs)) (\<lambda>keras_hub_output.
        io_bind (io_lift (hf_tokenizer sample_text)) (\<lambda>hf_inputs.
        io_bind (io_lift (hf_forward hf_model hf_inputs)) (\<lambda>hf_output.
        io_bind (io_lift (index_0_0_first10 keras_hub_output)) (\<lambda>k10.
        io_then (print (TensorLine ''KerasHub output:'' k10))
       (io_bind (io_lift (index_0_0_first10 hf_output)) (\<lambda>h10.
        io_then (print (TensorLine ''HF output:'' h10))
       (io_bind (io_lift (np_subtract env keras_hub_output hf_output)) (\<lambda>difference.
        io_then (print (NumberLine ''Difference:'' (np_mean env difference)))
       (io_bind (get_md5_checksum env (''./'' @ preset @ ''.h5'')) (\<lambda>checksum.
        print (Line (''Model md5sum:  '' @ checksum))))))))))))))"

definition main :: "'a env \<Rightarrow> string \<Rightarrow> ('a, unit) io" where
  "main env preset =
     io_bind (io_lift (case map_of PRESET_MAP preset of None \<Rightarrow> Inl (KeyError preset) | Some n \<Rightarrow> Inr n))
       (\<lambda>hf_model_name.
     io_then (download_files env preset hf_model_name)
    (io_bind (define_preprocessor env preset hf_model_name) (\<lambda>(keras_hub_preprocessor, hf_tokenizer).
     io_then (print_header ''-> Load KerasHub model.'')
    (io_bind (io_lift (backbone_from_preset env preset)) (\<lambda>keras_hub_model.
     io_then (print_header ''-> Load HF model.'')
    (io_bind (io_lift (auto_model env hf_model_name)) (\<lambda>hf_model.
     io_bind (convert_checkpoints env preset keras_hub_model hf_model) (\<lambda>keras_hub_model.
     check_output env preset keras_hub_preprocessor keras_hub_model hf_tokenizer hf_model))))))))"

subsection \<open>The command line\<close>

text \<open>
  The flags the script defines with \<^verbatim>\<open>flags.DEFINE_string\<close> and marks with
  \<^verbatim>\<open>flags.mark_flag_as_required\<close>.
\<close>

record flag_def =
  flag_name :: string
  flag_default :: "string option"
  flag_help :: string
  flag_required :: bool

fun join_with :: "string \<Rightarrow> string list \<Rightarrow> string" where
  "join_with sep [] = []"
| "join_with sep [x] = x"
| "join_with sep (x # y # ys) = x @ sep @ join_with sep (y # ys)"

definition script_flags :: "flag_def list" where
  "script_flags =
     [\<lparr>flag_name = ''preset'', flag_default = None,
       flag_help = ''Must be one of '' @ join_with '','' (map fst PRESET_MAP),
       flag_required = True\<rparr>]"

text \<open>
  \<^verbatim>\<open>app.run(main)\<close> on a command line given as its \<^verbatim>\<open>--name=value\<close> pairs: a name
  that is not a defined flag and a required flag without a value end the process with
  status 1 before \<^verbatim>\<open>main\<close> runs; otherwise the status is 0 when \<^verbatim>\<open>main\<close>
  returns and 1 when it raises. The flags that the flag library defines for every
  program are not part of the model.
\<close>

definition flag_value :: "(string \<times> string) list \<Rightarrow> flag_def \<Rightarrow> string option" where
  "flag_value argv f = (case map_of (rev argv) (flag_name f) of None \<Rightarrow> flag_default f | Some v \<Rightarrow> Some v)"

definition parse_flags :: "flag_def list \<Rightarrow> (string \<times> string) list \<Rightarrow> error + (string \<rightharpoonup> string)" where
  "parse_flags defs argv =
     (case filter (\<lambda>(n, v). n \<notin> set (map flag_name defs)) argv of
        (n, v) # _ \<Rightarrow> Inl (UsageError (''Unknown command line flag '' @ n))
      | [] \<Rightarrow>
          (case filter (\<lambda>f. flag_required f \<and> flag_value argv f = None) defs of
             f # _ \<Rightarrow> Inl (UsageError (''Flag --'' @ flag_name f @ '' must have a value other than None.''))
           | [] \<Rightarrow> Inr (\<lambda>n. case filter (\<lambda>f. flag_name f = n) defs of [] \<Rightarrow> None | f # _ \<Rightarrow> flag_value argv f)))"

definition run_script :: "'a env \<Rightarrow> (string \<times> string) list \<Rightarrow> 'a world \<Rightarrow> nat \<times> 'a world" where
  "run_script env argv w =
     (case parse_flags script_flags argv of
        Inl e \<Rightarrow> (1, w)
      | Inr FLAGS \<Rightarrow>
          (case FLAGS ''preset'' of
             None \<Rightarrow> (1, w)
           | Some preset \<Rightarrow>
               (case main env preset w of
                  (Inl e, w') \<Rightarrow> (1, w')
                | (Inr u, w') \<Rightarrow> (0, w'))))"

subsection \<open>A small instance\<close>

definition demo_json :: json_doc where
  "demo_json = JObject
     [(''vocab_size'', JInt 1), (''n_layers'', JInt 1), (''n_heads'', JInt 2), (''dim'', JInt 4),
      (''hidden_dim'', JInt 1), (''dropout'', JOther ''0.1''), (''max_position_embeddings'', JInt 1)]"

definition demo_hf_model :: "nat hf_model" where
  "demo_hf_model = \<lparr>hf_state_dict = demo_hf_wts, hf_forward = (\<lambda>i. Inr (ramp [1, 2, 4] 0))\<rparr>"

definition demo_env :: "nat env" where
  "demo_env =
     \<lparr>http_get = (\<lambda>url. if url = hub_url ''distilbert-base-uncased'' ''config.json'' then Some ''{}''
                        else if url = hub_url ''distilbert-base-uncased'' ''vocab.txt'' then Some ''[PAD]''
                        else None),
      json_loads = (\<lambda>s. if s = ''{}'' then Some demo_json else None),
      md5_hex = (\<lambda>s. ''md5 of '' @ s),
      distilbert_preprocessor = (\<lambda>v. Inr (\<lambda>texts. Inr [(''token_ids'', [[101, 102]]), (''padding_mask'', [[1, 1]])])),
      auto_tokenizer = (\<lambda>n. Inr (\<lambda>texts. Inr [(''input_ids'', [[101, 102]]), (''attention_mask'', [[1, 1]])])),
      backbone_from_preset = (\<lambda>p. Inr demo_model),
      auto_model = (\<lambda>n. Inr demo_hf_model),
      keras_predict = (\<lambda>m i. Inr (ramp [1, 2, 4] 1)),
      h5_bytes = (\<lambda>m. ''weights''),
      np_subtract = (\<lambda>a b. Inr \<lparr>shape = shape a, data = map2 (-) (data a) (data b)\<rparr>),
      np_mean = (\<lambda>t. sum_list (data t) div length (data t))\<rparr>"

definition demo_world :: "nat world" where
  "demo_world = \<lparr>files = Map.empty, dirs = {}, requests_sent = [], stdout = []\<rparr>"

definition demo_preset :: string where
  "demo_preset = ''distil_bert_base_en_uncased''"

definition plain_get :: "string \<Rightarrow> http_request" where
  "plain_get url = \<lparr>req_method = ''GET'', req_url = url, req_headers = [], req_auth = None\<rparr>"




definition keeps_files :: "('a, 'r) io \<Rightarrow> bool" where
  "keeps_files f =
     (\<forall>w. files (snd (f w)) = files w \<and> dirs (snd (f w)) = dirs w \<and>
          requests_sent (snd (f w)) = requests_sent w)"

definition loading_lines :: "'a out_line list" where
  "loading_lines = [Line [], Line ''-> Load KerasHub model.'', Line [], Line ''-> Load HF model.'']"

definition step_headers :: "string list" where
  "step_headers =
     [''-> Download original vocab and config.'',
      ''-> Define the tokenizers.'',
      ''-> Convert original weights to KerasHub format.'',
      ''-> Check the outputs.'']"

text \<open>The headings of the four functions of the script among printed lines, in order.\<close>

definition steps_of :: "'a out_line list \<Rightarrow> string list" where
  "steps_of ls =
     concat (map (\<lambda>l. case l of Line s \<Rightarrow> (if s \<in> set step_headers then [s] else []) | _ \<Rightarrow> []) ls)"

text \<open>
  An action runs the steps \<open>hs\<close>: it only appends to the output; when it returns, the
  headings it printed are \<open>hs\<close>, and when it raises they are the first few of \<open>hs\<close>.
\<close>

definition runs_steps :: "string list \<Rightarrow> ('a, 'r) io \<Rightarrow> bool" where
  "runs_steps hs f =
     (\<forall>w. \<exists>ls. stdout (snd (f w)) = stdout w @ ls \<and>
        (case fst (f w) of
           Inr r \<Rightarrow> steps_of ls = hs
         | Inl e \<Rightarrow> (\<exists>k. steps_of ls = take k hs)))"

definition convert_header :: "'a out_line list" where
  "convert_header = [Line [], Line ''-> Convert original weights to KerasHub format.'']"

definition error_of :: "error + 'b \<Rightarrow> error option" where
  "error_of r = (case r of Inl e \<Rightarrow> Some e | Inr x \<Rightarrow> None)"

definition offline_env :: "nat env" where
  "offline_env = demo_env\<lparr>http_get := (\<lambda>url. None)\<rparr>"

definition bad_json_env :: "nat env" where
  "bad_json_env = demo_env\<lparr>json_loads := (\<lambda>s. None)\<rparr>"

definition narrow_model :: "nat keras_model" where
  "narrow_model = set_variable demo_model ''transformer_layer_0'' ''_feedforward_output_dense.bias'' (zeros [5])"

definition deep_model :: "nat keras_model" where
  "deep_model = demo_model\<lparr>num_layers := 2\<rparr>"

definition demo_fetched_world :: "nat world" where
  "demo_fetched_world =
     demo_world\<lparr>files := [''distil_bert_base_en_uncased/config.json'' \<mapsto> ''{}'',
                            ''distil_bert_base_en_uncased/vocab.txt'' \<mapsto> ''[PAD]''],
                 dirs := {''distil_bert_base_en_uncased''}\<rparr>"

definition one_head_cfg :: config where
  "one_head_cfg = demo_cfg\<lparr>cfg_num_heads := JInt 1\<rparr>"

definition one_head_dims :: dims where
  "one_head_dims = demo_dims\<lparr>dim_heads := 1\<rparr>"

definition save_error :: error where
  "save_error = ValueError ''The filename must end in `.weights.h5`.''"

definition vocab_offline_env :: "nat env" where
  "vocab_offline_env =
     demo_env\<lparr>http_get := (\<lambda>url. if url = hub_url ''distilbert-base-uncased'' ''config.json''
                                    then Some ''{}'' else None)\<rparr>"

section \<open>Auxiliary lemmas\<close>

lemma get_set_same:
  "get_variable (set_variable m l a t) l a = Inr t"
  by (simp add: get_variable_def set_variable_def)

lemma get_set_other:
  "get_variable m l a = Inr v \<Longrightarrow> (l', a') \<noteq> (l, a) \<Longrightarrow>
   get_variable (set_variable m l a t) l' a' = get_variable m l' a'"
  by (auto simp: get_variable_def set_variable_def split: option.splits)

lemma num_layers_set [simp]: "num_layers (set_variable m l a t) = num_layers m"
  by (simp add: set_variable_def)

lemma run_assignment_ok:
  assumes "run_assignment sd s m = Inr m'"
  obtains v t t' where "get_variable m (dst_layer s) (dst_attr s) = Inr v"
    and "map_of sd (src_key s) = Some t" and "apply_ops (ops s) t = Inr t'"
    and "shape t' = shape v" and "m' = set_variable m (dst_layer s) (dst_attr s) t'"
  using assms
  by (auto simp: run_assignment_def assign_def split: sum.splits option.splits if_splits)

lemma run_assignment_other:
  assumes "run_assignment sd s m = Inr m'" and "(l, a) \<noteq> slot s"
  shows "get_variable m' l a = get_variable m l a"
  using assms(1)
proof (rule run_assignment_ok)
  fix v t t'
  assume "get_variable m (dst_layer s) (dst_attr s) = Inr v"
    and "m' = set_variable m (dst_layer s) (dst_attr s) t'"
  with assms(2) show ?thesis
    by (simp add: get_set_other slot_def)
qed

lemma run_assignment_num_layers:
  "run_assignment sd s m = Inr m' \<Longrightarrow> num_layers m' = num_layers m"
  by (erule run_assignment_ok) simp

lemma run_assignments_num_layers:
  "run_assignments sd ss m = Inr m' \<Longrightarrow> num_layers m' = num_layers m"
  by (induction ss arbitrary: m) (auto split: sum.splits dest: run_assignment_num_layers)

lemma run_assignments_other:
  "run_assignments sd ss m = Inr m' \<Longrightarrow> (l, a) \<notin> slot ` set ss \<Longrightarrow>
   get_variable m' l a = get_variable m l a"
proof (induction ss arbitrary: m)
  case Nil
  then show ?case by simp
next
  case (Cons s ss)
  from Cons.prems(1) obtain m1 where s1: "run_assignment sd s m = Inr m1"
    and rest: "run_assignments sd ss m1 = Inr m'"
    by (auto split: sum.splits)
  from Cons.prems(2) have "(l, a) \<noteq> slot s" and "(l, a) \<notin> slot ` set ss" by auto
  with Cons.IH [OF rest] run_assignment_other [OF s1] show ?case by simp
qed

lemma run_assignments_value:
  "run_assignments sd ss m = Inr m' \<Longrightarrow> distinct (map slot ss) \<Longrightarrow> s \<in> set ss \<Longrightarrow>
   \<exists>t t'. map_of sd (src_key s) = Some t \<and> apply_ops (ops s) t = Inr t' \<and>
           get_variable m' (dst_layer s) (dst_attr s) = Inr t'"
proof (induction ss arbitrary: m)
  case Nil
  then show ?case by simp
next
  case (Cons x ss)
  from Cons.prems(1) obtain m1 where s1: "run_assignment sd x m = Inr m1"
    and rest: "run_assignments sd ss m1 = Inr m'"
    by (auto split: sum.splits)
  from Cons.prems(2) have dist: "distinct (map slot ss)" and fresh: "slot x \<notin> slot ` set ss"
    by auto
  show ?case
  proof (cases "s = x")
    case True
    from s1 obtain t t' where "map_of sd (src_key x) = Some t" "apply_ops (ops x) t = Inr t'"
      and m1: "m1 = set_variable m (dst_layer x) (dst_attr x) t'"
      by (rule run_assignment_ok)
    moreover have "get_variable m' (dst_layer x) (dst_attr x) = get_variable m1 (dst_layer x) (dst_attr x)"
      using run_assignments_other [OF rest, of "dst_layer x" "dst_attr x"] fresh
      by (simp add: slot_def)
    ultimately show ?thesis using True by (auto simp: get_set_same)
  next
    case False
    with Cons.prems(3) have "s \<in> set ss" by simp
    from Cons.IH [OF rest dist this] show ?thesis .
  qed
qed

lemma run_assignments_append:
  "run_assignments sd (xs @ ys) m =
     (case run_assignments sd xs m of Inl e \<Rightarrow> Inl e | Inr m' \<Rightarrow> run_assignments sd ys m')"
  by (induction xs arbitrary: m) (auto split: sum.splits)

lemma layer_loop_concat:
  "layer_loop cfg sd is m = run_assignments sd (concat (map (layer_assignments cfg) is)) m"
  by (induction "is" arbitrary: m) (auto simp: run_assignments_append split: sum.splits)

lemma remap_weights_eq:
  "remap_weights cfg sd m = run_assignments sd (all_assignments cfg (num_layers m)) m"
  by (auto simp: remap_weights_def all_assignments_def run_assignments_append layer_loop_concat
      split: sum.splits dest: run_assignments_num_layers)

lemma digit_val_digit_char: "d < 10 \<Longrightarrow> digit_val (digit_char d) = d"
proof -
  assume "d < 10"
  then have "d \<in> {0, 1, 2, 3, 4, 5, 6, 7, 8, 9}" by auto
  then show ?thesis
    by (auto simp: digit_val_def digit_char_def)
qed

lemma nat_of_str_snoc: "nat_of_str (s @ [c]) = 10 * nat_of_str s + digit_val c"
  by (simp add: nat_of_str_def)

lemma nat_of_str_nat: "nat_of_str (str_nat n) = n"
proof (induction n rule: str_nat.induct)
  case (1 n)
  show ?case
  proof (cases "n < 10")
    case True
    then show ?thesis
      by (simp add: str_nat.simps [of n] nat_of_str_def digit_val_digit_char)
  next
    case False
    with 1 have "nat_of_str (str_nat (n div 10)) = n div 10" by simp
    with False show ?thesis
      by (simp add: str_nat.simps [of n] nat_of_str_snoc digit_val_digit_char)
  qed
qed

lemma str_nat_inj: "str_nat i = str_nat j \<Longrightarrow> i = j"
  by (metis nat_of_str_nat)

lemma layer_name_inj: "layer_name i = layer_name j \<Longrightarrow> i = j"
  by (simp add: layer_name_def str_nat_inj)

lemma layer_name_not_embedding:
  "layer_name i \<noteq> ''token_and_position_embedding''" "layer_name i \<noteq> ''embeddings_layer_norm''"
  by (simp_all add: layer_name_def)

lemma slots_layer: "map slot (layer_assignments cfg i) = map (Pair (layer_name i)) layer_attrs"
  by (simp add: layer_assignments_def layer_attrs_def slot_def)

lemma distinct_layer_attrs: "distinct layer_attrs"
  by (simp add: layer_attrs_def)

lemma distinct_layer_slots: "distinct (map slot (layer_assignments cfg i))"
  by (simp add: slots_layer distinct_map distinct_layer_attrs inj_on_def)

lemma slots_layers_subset:
  "set (map slot (concat (map (layer_assignments cfg) [0..<n]))) \<subseteq> {(layer_name j, a) | j a. j < n}"
  by (auto simp: slots_layer [unfolded list.map_comp o_def, symmetric] slot_def layer_assignments_def)

lemma layer_assignments_dst:
  "s \<in> set (layer_assignments cfg i) \<Longrightarrow> dst_layer s = layer_name i"
  by (auto simp: layer_assignments_def)

lemma layers_assignments_dst:
  "s \<in> set (concat (map (layer_assignments cfg) [0..<n])) \<Longrightarrow> \<exists>j<n. dst_layer s = layer_name j"
  by (auto dest: layer_assignments_dst)

lemma embedding_assignments_dst:
  "s \<in> set embedding_assignments \<Longrightarrow>
   dst_layer s = ''token_and_position_embedding'' \<or> dst_layer s = ''embeddings_layer_norm''"
  by (auto simp: embedding_assignments_def)

lemma distinct_layers_slots:
  "distinct (map slot (concat (map (layer_assignments cfg) [0..<n])))"
proof (induction n)
  case 0
  then show ?case by simp
next
  case (Suc n)
  have "slot s \<noteq> slot s'"
    if "s \<in> set (concat (map (layer_assignments cfg) [0..<n]))"
      and "s' \<in> set (layer_assignments cfg n)" for s s'
  proof -
    from that(1) obtain j where "j < n" "dst_layer s = layer_name j"
      using layers_assignments_dst by blast
    moreover from that(2) have "dst_layer s' = layer_name n"
      by (rule layer_assignments_dst)
    ultimately show ?thesis
      using layer_name_inj [of j n] by (auto simp: slot_def)
  qed
  then have "slot ` set (concat (map (layer_assignments cfg) [0..<n])) \<inter>
      slot ` set (layer_assignments cfg n) = {}"
    by blast
  with Suc distinct_layer_slots [of cfg n] show ?case
    by simp
qed

lemma distinct_embedding_slots: "distinct (map slot embedding_assignments)"
  by (simp add: slot_def embedding_assignments_def)

lemma distinct_all_slots: "distinct (map slot (all_assignments cfg n))"
proof -
  have "slot s \<noteq> slot s'"
    if "s \<in> set embedding_assignments"
      and "s' \<in> set (concat (map (layer_assignments cfg) [0..<n]))" for s s'
  proof -
    from that(2) obtain j where "dst_layer s' = layer_name j"
      using layers_assignments_dst by blast
    with embedding_assignments_dst [OF that(1)] layer_name_not_embedding [of j]
    show ?thesis
      by (auto simp: slot_def)
  qed
  then have "slot ` set embedding_assignments \<inter>
      slot ` set (concat (map (layer_assignments cfg) [0..<n])) = {}"
    by blast
  then show ?thesis
    using distinct_embedding_slots distinct_layers_slots [of cfg n]
    by (simp add: all_assignments_def)
qed

lemma layer_in_all: "i < n \<Longrightarrow> s \<in> set (layer_assignments cfg i) \<Longrightarrow> s \<in> set (all_assignments cfg n)"
  by (auto simp: all_assignments_def)

lemma remap_weights_value:
  assumes "remap_weights cfg sd m = Inr m'" and "i < num_layers m"
    and "s \<in> set (layer_assignments cfg i)"
  shows "\<exists>t t'. map_of sd (src_key s) = Some t \<and> apply_ops (ops s) t = Inr t' \<and>
           get_variable m' (dst_layer s) (dst_attr s) = Inr t'"
  using run_assignments_value [OF assms(1) [unfolded remap_weights_eq] distinct_all_slots
      layer_in_all [OF assms(2,3)]] .

lemma block_index_less:
  fixes n d hs N :: nat
  assumes "n < N" and "d < hs"
  shows "n * hs + d < N * hs"
proof -
  have "n * hs + d < n * hs + hs" using assms(2) by simp
  also have "\<dots> = Suc n * hs" by simp
  also have "\<dots> \<le> N * hs" using assms(1) by (intro mult_le_mono1) simp
  finally show ?thesis .
qed

lemma transpose_matrix:
  assumes "shape W = [r, c]"
  shows "transpose_1_0 W = Inr \<lparr>shape = [c, r], data = map (\<lambda>p. data W ! ((p mod r) * c + p div r)) [0..<c * r]\<rparr>"
  using assms by (simp add: transpose_1_0_def)

lemma reshape_heads_last:
  assumes "length (data t) = H * H"
    and "reshape [JInt (int H), JInt (int N), JInt (- 1)] t = Inr t'"
  shows "0 < H \<and> 0 < N \<and> N dvd H \<and> t' = \<lparr>shape = [H, N, H div N], data = data t\<rparr>"
proof -
  have scan: "infer_scan [int H, int N, - 1] 1 False = Inr (H * N, True)"
    by simp
  from assms(2) have ok: "infer_size [int H, int N, - 1] (H * H) = Inr (shape t')" and d: "data t' = data t"
    by (auto simp: reshape_def assms(1) split: sum.splits)
  from ok have pos: "0 < H * N" and dv: "(H * H) mod (H * N) = 0"
    and sh: "shape t' = [H, N, (H * H) div (H * N)]"
    by (auto simp: infer_size_def scan split: if_splits)
  from pos have H: "0 < H" and N: "0 < N" by auto
  from dv H have "N dvd H" by (simp add: mod_eq_0_iff_dvd)
  moreover from H have "(H * H) div (H * N) = H div N" by simp
  ultimately show ?thesis using H N sh d by (cases t') simp
qed

lemma kernel_elements:
  assumes W: "shape W = [H, H]" "wf_tensor W"
    and K: "apply_ops [Transpose10, Reshape [JInt (int H), JInt (int N), JInt (- 1)], Numpy] W = Inr K"
  shows "N dvd H \<and> shape K = [H, N, H div N] \<and> wf_tensor K \<and>
     (\<forall>h<H. \<forall>n<N. \<forall>d<H div N. at3 K h n d = at2 W (n * (H div N) + d) h)"
proof -
  let ?T = "\<lparr>shape = [H, H], data = map (\<lambda>p. data W ! ((p mod H) * H + p div H)) [0..<H * H]\<rparr>"
  from K have r: "reshape [JInt (int H), JInt (int N), JInt (- 1)] ?T = Inr K"
    by (simp add: transpose_matrix [OF W(1)] split: sum.splits)
  have "length (data ?T) = H * H" by simp
  from reshape_heads_last [OF this r]
  have H: "0 < H" and N: "0 < N" and dv: "N dvd H"
    and Keq: "K = \<lparr>shape = [H, N, H div N], data = data ?T\<rparr>"
    by auto
  from dv have split: "N * (H div N) = H" by simp
  have "at3 K h n d = at2 W (n * (H div N) + d) h" if "h < H" "n < N" "d < H div N" for h n d
  proof -
    let ?q = "n * (H div N) + d"
    have q: "?q < H" using block_index_less [OF that(2,3)] split by simp
    have idx: "(h * N + n) * (H div N) + d = h * H + ?q"
      using split by (simp add: algebra_simps)
    have "h * H + ?q < Suc h * H" using q by simp
    also have "\<dots> \<le> H * H" using that(1) by (intro mult_le_mono1) simp
    finally have p: "h * H + ?q < H * H" .
    have "at3 K h n d = data ?T ! (h * H + ?q)"
      by (simp add: at3_def Keq idx)
    also have "\<dots> = data W ! (((h * H + ?q) mod H) * H + (h * H + ?q) div H)"
      using p by simp
    also have "\<dots> = data W ! (?q * H + h)" using q by simp
    finally show ?thesis by (simp add: at2_def W(1))
  qed
  moreover have "wf_tensor K" using split by (simp add: wf_tensor_def Keq)
  ultimately show ?thesis using dv Keq by simp
qed

lemma reshape_bias:
  assumes "length (data t) = H"
    and "reshape [JInt (int N), JInt (- 1)] t = Inr t'"
  shows "0 < N \<and> N dvd H \<and> t' = \<lparr>shape = [N, H div N], data = data t\<rparr>"
proof -
  have scan: "infer_scan [int N, - 1] 1 False = Inr (N, True)"
    by simp
  from assms(2) have ok: "infer_size [int N, - 1] H = Inr (shape t')" and d: "data t' = data t"
    by (auto simp: reshape_def assms(1) split: sum.splits)
  from ok have N: "0 < N" and dv: "H mod N = 0" and sh: "shape t' = [N, H div N]"
    by (auto simp: infer_size_def scan split: if_splits)
  from dv have "N dvd H" by (simp add: mod_eq_0_iff_dvd)
  then show ?thesis using N sh d by (cases t') simp
qed

lemma bias_elements:
  assumes b: "shape b = [H]" "wf_tensor b"
    and B: "apply_ops [Reshape [JInt (int N), JInt (- 1)], Numpy] b = Inr B"
  shows "N dvd H \<and> shape B = [N, H div N] \<and> wf_tensor B \<and>
     (\<forall>n<N. \<forall>d<H div N. at2 B n d = at1 b (n * (H div N) + d))"
proof -
  from B have r: "reshape [JInt (int N), JInt (- 1)] b = Inr B"
    by (simp split: sum.splits)
  from b have "length (data b) = H" by (simp add: wf_tensor_def)
  from reshape_bias [OF this r] b show ?thesis
    by (auto simp: at2_def at1_def wf_tensor_def)
qed

lemma assignment_ok_runs: "assignment_ok sd m s \<Longrightarrow> \<exists>m'. run_assignment sd s m = Inr m'"
  by (auto simp: assignment_ok_def run_assignment_def assign_def)

lemma assignment_ok_preserved:
  assumes "run_assignment sd x m = Inr m'" and "assignment_ok sd m s"
  shows "assignment_ok sd m' s"
proof -
  from assms(1) obtain v t t' where v: "get_variable m (dst_layer x) (dst_attr x) = Inr v"
    and sh: "shape t' = shape v" and m': "m' = set_variable m (dst_layer x) (dst_attr x) t'"
    by (rule run_assignment_ok)
  show ?thesis
  proof (cases "slot s = slot x")
    case True
    then have "get_variable m' (dst_layer s) (dst_attr s) = Inr t'"
      by (simp add: slot_def m' get_set_same)
    with assms(2) v sh True show ?thesis
      by (auto simp: assignment_ok_def slot_def)
  next
    case False
    then have "get_variable m' (dst_layer s) (dst_attr s) = get_variable m (dst_layer s) (dst_attr s)"
      using run_assignment_other [OF assms(1), of "dst_layer s" "dst_attr s"]
      by (simp add: slot_def)
    with assms(2) show ?thesis
      by (simp add: assignment_ok_def)
  qed
qed

lemma run_assignments_ok:
  "(\<And>s. s \<in> set ss \<Longrightarrow> assignment_ok sd m s) \<Longrightarrow> \<exists>m'. run_assignments sd ss m = Inr m'"
proof (induction ss arbitrary: m)
  case Nil
  then show ?case by simp
next
  case (Cons x ss)
  from Cons.prems have "assignment_ok sd m x" by simp
  then obtain m1 where m1: "run_assignment sd x m = Inr m1"
    using assignment_ok_runs by blast
  have "assignment_ok sd m1 s" if "s \<in> set ss" for s
    using assignment_ok_preserved [OF m1] Cons.prems that by simp
  from Cons.IH [OF this] m1 show ?case by simp
qed

lemma heads_pos: "0 < H \<Longrightarrow> N dvd H \<Longrightarrow> 0 < (N::nat)"
  by (cases "N = 0") auto

lemma ops_kernel:
  assumes "shape t = [H, H]" "wf_tensor t" "0 < H" "N dvd H"
  shows "\<exists>t'. apply_ops [Transpose10, Reshape [JInt (int H), JInt (int N), JInt (- 1)], Numpy] t = Inr t' \<and>
           shape t' = [H, N, H div N]"
proof -
  from assms(3,4) have N: "0 < N" by (rule heads_pos)
  from assms(4) have "(H * H) mod (H * N) = 0" by auto
  moreover have "(H * H) div (H * N) = H div N" using assms(3) by simp
  ultimately show ?thesis
    using assms(3) N
    by (simp add: transpose_matrix [OF assms(1)] reshape_def infer_size_def)
qed

lemma ops_out_kernel:
  assumes "shape t = [H, H]" "wf_tensor t" "0 < H" "N dvd H"
  shows "\<exists>t'. apply_ops [Transpose10, Reshape [JInt (int N), JInt (- 1), JInt (int H)], Numpy] t = Inr t' \<and>
           shape t' = [N, H div N, H]"
proof -
  from assms(3,4) have N: "0 < N" by (rule heads_pos)
  from assms(4) have "(H * H) mod (N * H) = 0" by auto
  moreover have "(H * H) div (N * H) = H div N" using assms(3) by simp
  ultimately show ?thesis
    using assms(3) N
    by (simp add: transpose_matrix [OF assms(1)] reshape_def infer_size_def)
qed

lemma ops_bias:
  assumes "shape t = [H]" "wf_tensor t" "0 < H" "N dvd H"
  shows "\<exists>t'. apply_ops [Reshape [JInt (int N), JInt (- 1)], Numpy] t = Inr t' \<and> shape t' = [N, H div N]"
proof -
  from assms(3,4) have N: "0 < N" by (rule heads_pos)
  from assms(1,2) have "length (data t) = H" by (simp add: wf_tensor_def)
  with assms(4) N show ?thesis
    by (simp add: reshape_def infer_size_def)
qed

lemma ops_transpose:
  assumes "shape t = [r, c]"
  shows "\<exists>t'. apply_ops [Transpose10, Numpy] t = Inr t' \<and> shape t' = [c, r]"
  by (simp add: transpose_matrix [OF assms])

lemma ops_numpy: "shape t = s \<Longrightarrow> \<exists>t'. apply_ops [Numpy] t = Inr t' \<and> shape t' = s"
  by simp

lemma ops_none: "shape t = s \<Longrightarrow> \<exists>t'. apply_ops [] t = Inr t' \<and> shape t' = s"
  by simp

lemma assignment_okI:
  fixes sd :: "'a state_dict"
  assumes "has_variable m l a s" and "has_tensor sd k s0"
    and "\<And>t :: 'a tensor. shape t = s0 \<Longrightarrow> wf_tensor t \<Longrightarrow> \<exists>t'. apply_ops os t = Inr t' \<and> shape t' = s"
  shows "assignment_ok sd m \<lparr>dst_layer = l, dst_attr = a, src_key = k, ops = os\<rparr>"
proof -
  from assms(1) obtain v where v: "get_variable m l a = Inr v" "shape v = s"
    by (auto simp: has_variable_def split: sum.splits)
  from assms(2) obtain t where t: "map_of sd k = Some t" "shape t = s0" "wf_tensor t"
    by (auto simp: has_tensor_def split: option.splits)
  from assms(3) [OF t(2,3)] obtain t' where "apply_ops os t = Inr t'" "shape t' = s"
    by blast
  with v t show ?thesis
    by (auto simp: assignment_ok_def)
qed

lemma embedding_ok:
  assumes "list_all (\<lambda>(k, s). has_tensor sd k s) (hf_embedding_shapes d)"
    and "list_all (\<lambda>((l, a), s). has_variable m l a s) (keras_embedding_shapes d)"
    and "s \<in> set embedding_assignments"
  shows "assignment_ok sd m s"
  using assms
  by (auto simp: hf_embedding_shapes_def keras_embedding_shapes_def embedding_assignments_def
      intro!: assignment_okI)

lemma layer_ok:
  assumes cfg: "cfg_hidden_dim cfg = JInt (int (dim_hidden d))" "cfg_num_heads cfg = JInt (int (dim_heads d))"
    and pos: "0 < dim_hidden d" "dim_heads d dvd dim_hidden d"
    and hf: "list_all (\<lambda>(k, s). has_tensor sd (hf_key i k) s) (hf_layer_shapes d)"
    and ke: "list_all (\<lambda>(a, s). has_variable m (layer_name i) a s) (keras_layer_shapes d)"
    and s: "s \<in> set (layer_assignments cfg i)"
  shows "assignment_ok sd m s"
proof -
  note k = ops_kernel [OF _ _ pos] and o = ops_out_kernel [OF _ _ pos] and b = ops_bias [OF _ _ pos]
  from hf ke s show ?thesis
    unfolding hf_layer_shapes_def keras_layer_shapes_def layer_assignments_def cfg Let_def
    by (auto intro!: assignment_okI k o b ops_transpose)
qed

lemma demo_remap_ok: "is_ok (remap_weights demo_cfg demo_hf_wts demo_model)"
  by code_simp

lemma qkv_kernel_in_layer:
  "(src, dst) \<in> set qkv_projections \<Longrightarrow>
   \<lparr>dst_layer = layer_name i, dst_attr = ''_self_attention_layer.'' @ dst @ ''.kernel'',
     src_key = hf_key i (''.attention.'' @ src @ ''.weight''),
     ops = [Transpose10, Reshape [cfg_hidden_dim cfg, cfg_num_heads cfg, JInt (- 1)], Numpy]\<rparr>
   \<in> set (layer_assignments cfg i)"
  unfolding qkv_projections_def layer_assignments_def
  by (elim disjE | simp)+

lemma qkv_bias_in_layer:
  "(src, dst) \<in> set qkv_projections \<Longrightarrow>
   \<lparr>dst_layer = layer_name i, dst_attr = ''_self_attention_layer.'' @ dst @ ''.bias'',
     src_key = hf_key i (''.attention.'' @ src @ ''.bias''),
     ops = [Reshape [cfg_num_heads cfg, JInt (- 1)], Numpy]\<rparr>
   \<in> set (layer_assignments cfg i)"
  unfolding qkv_projections_def layer_assignments_def
  by (elim disjE | simp)+

lemma layer_assignments_length: "length (layer_assignments cfg i) = 16"
  by (simp add: layer_assignments_def)

lemma layer_assignments_attrs: "map dst_attr (layer_assignments cfg i) = layer_attrs"
  by (simp add: layer_assignments_def layer_attrs_def)

lemma layer_assignments_keys_distinct: "distinct (map src_key (layer_assignments cfg i))"
  by (simp add: layer_assignments_def hf_key_def)

lemma layer_assignments_shape:
  "s \<in> set (layer_assignments cfg i) \<Longrightarrow>
   (\<exists>suffix. src_key s = hf_key i suffix) \<and> ops s \<in> set (fixed_op_chains cfg)"
  unfolding layer_assignments_def fixed_op_chains_def
  by (elim disjE | simp | blast)+

lemma layer_frame:
  assumes run: "remap_weights cfg hf_wts m = Inr m'"
    and a: "a \<notin> dst_attr ` set (layer_assignments cfg i)"
  shows "get_variable m' (layer_name i) a = get_variable m (layer_name i) a"
proof -
  have "slot s \<noteq> (layer_name i, a)" if s: "s \<in> set (all_assignments cfg (num_layers m))" for s
  proof (cases "s \<in> set embedding_assignments")
    case True
    from embedding_assignments_dst [OF this] layer_name_not_embedding [of i]
    show ?thesis by (auto simp: slot_def)
  next
    case False
    with s obtain j where j: "s \<in> set (layer_assignments cfg j)"
      by (auto simp: all_assignments_def)
    show ?thesis
    proof
      assume eq: "slot s = (layer_name i, a)"
      with layer_assignments_dst [OF j] have "j = i"
        by (auto simp: slot_def dest: layer_name_inj)
      with j eq a show False by (auto simp: slot_def)
    qed
  qed
  then have "(layer_name i, a) \<notin> slot ` set (all_assignments cfg (num_layers m))"
    by (metis imageE)
  with run show ?thesis
    unfolding remap_weights_eq by (rule run_assignments_other)
qed

lemma demo_overwrites: "list_all (overwrites demo_hf_wts demo_model) (layer_assignments demo_cfg 0)"
  by code_simp

lemma io_bind_Inr:
  "io_bind f g w = (Inr r, w') \<longleftrightarrow> (\<exists>x w1. f w = (Inr x, w1) \<and> g x w1 = (Inr r, w'))"
  by (auto simp: io_bind_def split: prod.splits sum.splits)

lemma io_bind_Inl:
  "io_bind f g w = (Inl e, w') \<longleftrightarrow>
     f w = (Inl e, w') \<or> (\<exists>x w1. f w = (Inr x, w1) \<and> g x w1 = (Inl e, w'))"
  by (auto simp: io_bind_def split: prod.splits sum.splits)

lemma io_then_Inr:
  "io_then f g w = (Inr r, w') \<longleftrightarrow> (\<exists>w1. f w = (Inr (), w1) \<and> g w1 = (Inr r, w'))"
  by (auto simp: io_then_def io_bind_Inr)

lemma io_then_Inl:
  "io_then f g w = (Inl e, w') \<longleftrightarrow>
     f w = (Inl e, w') \<or> (\<exists>w1. f w = (Inr (), w1) \<and> g w1 = (Inl e, w'))"
  by (auto simp: io_then_def io_bind_Inl)

lemma io_lift_eq: "io_lift x w = (r, w') \<longleftrightarrow> x = r \<and> w' = w"
  by (auto simp: io_lift_def)


lemma print_eq: "print l w = (r, w') \<longleftrightarrow> r = Inr () \<and> w' = w\<lparr>stdout := stdout w @ [l]\<rparr>"
  by (auto simp: print_def)

lemma print_header_eq:
  "print_header s w = (r, w') \<longleftrightarrow> r = Inr () \<and> w' = w\<lparr>stdout := stdout w @ [Line [], Line s]\<rparr>"
  by (auto simp: print_header_def io_then_def io_bind_def print_def)

lemma requests_get_cases:
  assumes "requests_get env url w = (r, w')"
  shows "w' = w\<lparr>requests_sent := requests_sent w @ [plain_get url]\<rparr> \<and>
     r = (case http_get env url of None \<Rightarrow> Inl (ConnectionError url) | Some c \<Rightarrow> Inr c)"
  using assms by (auto simp: requests_get_def plain_get_def Let_def split: option.splits)

lemma open_write_requests: "open_write p c w = (r, w') \<Longrightarrow> requests_sent w' = requests_sent w"
  by (auto simp: open_write_def Let_def split: if_splits)

lemma download_files_requests:
  assumes "download_files env preset hf w = (r, w')"
  shows "requests_sent w' \<in>
      {requests_sent w,
       requests_sent w @ [plain_get (hub_url hf ''config.json'')],
       requests_sent w @ [plain_get (hub_url hf ''config.json''), plain_get (hub_url hf ''vocab.txt'')]} \<and>
     ((\<exists>u. r = Inr u) \<longrightarrow> requests_sent w' =
       requests_sent w @ [plain_get (hub_url hf ''config.json''), plain_get (hub_url hf ''vocab.txt'')])"
  using assms
  unfolding download_files_def Let_def
  by (cases r)
    (auto simp: io_then_Inl io_then_Inr io_bind_Inl io_bind_Inr print_eq makedirs_def
      dest!: requests_get_cases open_write_requests split: if_splits)



lemma dirname_join:
  assumes "CHR ''/'' \<notin> set f"
  shows "dirname (p @ ''/'' @ f) = p"
proof -
  have "dropWhile (\<lambda>c. c \<noteq> CHR ''/'') (rev f @ CHR ''/'' # rev p) = CHR ''/'' # rev p"
    using assms by (auto simp: dropWhile_append3)
  then show ?thesis by (simp add: dirname_def)
qed

lemma dirname_plain:
  assumes "CHR ''/'' \<notin> set p"
  shows "dirname p = []"
proof -
  have "dropWhile (\<lambda>c. c \<noteq> CHR ''/'') (rev p) = []"
    using assms by (auto simp: dropWhile_eq_Nil_conv)
  then show ?thesis unfolding dirname_def by (metis drop_Nil rev.simps(1))
qed

lemma preset_shape:
  assumes "map_of PRESET_MAP preset = Some hf"
  shows "preset \<noteq> [] \<and> CHR ''/'' \<notin> set preset \<and> last preset \<noteq> CHR ''/'' \<and> take 2 preset \<noteq> ''./''"
proof -
  from assms have "preset \<in> fst ` set PRESET_MAP" by (metis map_of_eq_None_iff option.distinct(1))
  then show ?thesis
    unfolding PRESET_MAP_def by (elim imageE, simp) (elim disjE; simp)
qed

lemma preset_paths:
  assumes "map_of PRESET_MAP preset = Some hf" and "CHR ''/'' \<notin> set f"
  shows "norm_path (path_join (EXTRACT_DIR preset) f) = preset @ ''/'' @ f"
    and "dirname (preset @ ''/'' @ f) = preset"
    and "norm_path (EXTRACT_DIR preset) = preset"
    and "norm_path (preset @ ''.h5'') = preset @ ''.h5''"
    and "dirname (preset @ ''.h5'') = []"
proof -
  from preset_shape [OF assms(1)] have p: "preset \<noteq> []" "CHR ''/'' \<notin> set preset"
      "last preset \<noteq> CHR ''/''" "take 2 preset \<noteq> ''./''" by auto
  from assms(2) have "take 1 f \<noteq> ''/''" by (cases f) auto
  with p show "norm_path (path_join (EXTRACT_DIR preset) f) = preset @ ''/'' @ f"
    by (simp add: path_join_def EXTRACT_DIR_def norm_path_def)
  show "dirname (preset @ ''/'' @ f) = preset" using assms(2) by (rule dirname_join)
  show "norm_path (EXTRACT_DIR preset) = preset" by (simp add: EXTRACT_DIR_def norm_path_def)
  from p(4) have "take 2 (preset @ ''.h5'') \<noteq> ''./''"
    by (cases preset; cases "tl preset") auto
  then show "norm_path (preset @ ''.h5'') = preset @ ''.h5''" by (simp add: norm_path_def)
  from p(2) show "dirname (preset @ ''.h5'') = []" by (intro dirname_plain) simp
qed

lemma keeps_filesD:
  "keeps_files f \<Longrightarrow> f w = (r, w') \<Longrightarrow>
   files w' = files w \<and> dirs w' = dirs w \<and> requests_sent w' = requests_sent w"
  by (auto simp: keeps_files_def dest: spec [of _ w])

lemma keeps_bind:
  assumes "keeps_files f" and "\<And>x. keeps_files (g x)"
  shows "keeps_files (io_bind f g)"
  unfolding keeps_files_def
proof
  fix w
  obtain r w1 where f: "f w = (r, w1)" by (cases "f w")
  note k1 = keeps_filesD [OF assms(1) f]
  show "files (snd (io_bind f g w)) = files w \<and> dirs (snd (io_bind f g w)) = dirs w \<and>
     requests_sent (snd (io_bind f g w)) = requests_sent w"
  proof (cases r)
    case (Inl e)
    with f k1 show ?thesis by (simp add: io_bind_def)
  next
    case (Inr x)
    obtain r2 w2 where g: "g x w1 = (r2, w2)" by (cases "g x w1")
    from keeps_filesD [OF assms(2) g] k1 f Inr g show ?thesis
      by (simp add: io_bind_def)
  qed
qed

lemma keeps_then: "keeps_files f \<Longrightarrow> keeps_files g \<Longrightarrow> keeps_files (io_then f g)"
  by (simp add: io_then_def keeps_bind)

lemma keeps_basic:
  "keeps_files (io_lift x)" "keeps_files (io_return y)" "keeps_files (print l)"
  "keeps_files (print_header s)" "keeps_files (open_read path)"
  by (auto simp: keeps_files_def io_lift_def io_return_def print_def print_header_def io_then_def
      io_bind_def open_read_def split: option.splits)

lemma keeps_md5: "keeps_files (get_md5_checksum env path)"
  by (simp add: get_md5_checksum_def keeps_bind keeps_basic)

lemmas keeps_intros = keeps_bind keeps_then keeps_basic keeps_md5

lemma keeps_define_preprocessor: "keeps_files (define_preprocessor env preset hf)"
  unfolding define_preprocessor_def Let_def
  by (intro keeps_intros) 

lemma keeps_check_output: "keeps_files (check_output env preset pp km tok hm)"
  unfolding check_output_def
  by (intro keeps_intros)

lemma open_write_Inr:
  "open_write path content w = (Inr u, w') \<longleftrightarrow>
     (dirname (norm_path path) = [] \<or> dirname (norm_path path) \<in> dirs w) \<and>
     norm_path path \<notin> dirs w \<and> w' = w\<lparr>files := (files w)(norm_path path \<mapsto> content)\<rparr>"
  by (auto simp: open_write_def Let_def)

lemma download_files_Inr:
  assumes p: "map_of PRESET_MAP preset = Some hf" and run: "download_files env preset hf w = (Inr u, w')"
  shows "\<exists>config vocab. http_get env (hub_url hf ''config.json'') = Some config \<and>
     http_get env (hub_url hf ''vocab.txt'') = Some vocab \<and>
     files w' = (files w)(preset @ ''/config.json'' \<mapsto> config, preset @ ''/vocab.txt'' \<mapsto> vocab) \<and>
     dirs w' = insert preset (dirs w)"
proof -
  have c: "CHR ''/'' \<notin> set ''config.json''" and v: "CHR ''/'' \<notin> set ''vocab.txt''" by simp_all
  have paths: "norm_path (path_join (EXTRACT_DIR preset) ''config.json'') = preset @ ''/config.json''"
    "norm_path (path_join (EXTRACT_DIR preset) ''vocab.txt'') = preset @ ''/vocab.txt''"
    "dirname (preset @ ''/config.json'') = preset" "dirname (preset @ ''/vocab.txt'') = preset"
    "norm_path (EXTRACT_DIR preset) = preset"
    using preset_paths(1,2) [OF p c] preset_paths(1,2) [OF p v] preset_paths(3) [OF p c]
    by simp_all
  from preset_shape [OF p] have ne: "preset \<noteq> []" by simp
  from run show ?thesis
    unfolding download_files_def Let_def
    by (auto simp: io_then_Inr io_bind_Inr print_eq makedirs_def open_write_Inr paths ne
        dest!: requests_get_cases split: if_splits option.splits)
qed

lemma preset_not_weights_name:
  assumes "map_of PRESET_MAP preset = Some hf"
  shows "\<not> ends_with ''.weights.h5'' (preset @ ''.h5'')"
proof -
  from assms have "preset \<in> fst ` set PRESET_MAP" by (metis map_of_eq_None_iff option.distinct(1))
  then show ?thesis
    unfolding PRESET_MAP_def by (elim imageE, simp) (elim disjE; simp add: ends_with_def)
qed

lemma save_weights_preset:
  assumes "map_of PRESET_MAP preset = Some hf"
  shows "save_weights env m (preset @ ''.h5'') w =
     (Inl (ValueError ''The filename must end in `.weights.h5`.''), w)"
  using preset_not_weights_name [OF assms] by (simp add: save_weights_def io_raise_def)

lemma convert_checkpoints_raises:
  assumes "map_of PRESET_MAP preset = Some hf"
  shows "convert_checkpoints env preset km hm w \<noteq> (Inr km', w')"
  unfolding convert_checkpoints_def Let_def
  by (auto simp: io_then_Inr io_bind_Inr save_weights_preset [OF assms])

lemma main_Inr:
  "main env preset w = (Inr u, w') \<longleftrightarrow>
     (\<exists>hf w1 pp tok w2 km hm km' w3.
        map_of PRESET_MAP preset = Some hf \<and>
        download_files env preset hf w = (Inr (), w1) \<and>
        define_preprocessor env preset hf w1 = (Inr (pp, tok), w2) \<and>
        backbone_from_preset env preset = Inr km \<and>
        auto_model env hf = Inr hm \<and>
        convert_checkpoints env preset km hm (w2\<lparr>stdout := stdout w2 @ loading_lines\<rparr>) = (Inr km', w3) \<and>
        check_output env preset pp km' tok hm w3 = (Inr u, w'))"
  unfolding main_def loading_lines_def
  by (auto simp: io_then_Inr io_bind_Inr io_lift_eq print_header_eq split: option.splits)

lemma steps_of_append: "steps_of (xs @ ys) = steps_of xs @ steps_of ys"
  by (simp add: steps_of_def)

lemma runs_steps_bind:
  assumes f: "runs_steps hs1 f" and g: "\<And>x. runs_steps hs2 (g x)"
  shows "runs_steps (hs1 @ hs2) (io_bind f g)"
  unfolding runs_steps_def
proof
  fix w
  obtain r w1 where fw: "f w = (r, w1)" by (cases "f w")
  from f obtain ls1 where l1: "stdout w1 = stdout w @ ls1"
    and s1: "case r of Inr r \<Rightarrow> steps_of ls1 = hs1 | Inl e \<Rightarrow> (\<exists>k. steps_of ls1 = take k hs1)"
    unfolding runs_steps_def using fw by (metis fst_conv snd_conv)
  show "\<exists>ls. stdout (snd (io_bind f g w)) = stdout w @ ls \<and>
        (case fst (io_bind f g w) of
           Inr r \<Rightarrow> steps_of ls = hs1 @ hs2
         | Inl e \<Rightarrow> (\<exists>k. steps_of ls = take k (hs1 @ hs2)))"
  proof (cases r)
    case (Inl e)
    with s1 obtain k where k: "steps_of ls1 = take k hs1" by auto
    have ex: "\<exists>k'. steps_of ls1 = take k' (hs1 @ hs2)"
    proof (rule exI)
      show "steps_of ls1 = take (min k (length hs1)) (hs1 @ hs2)"
        using k by (cases "k \<le> length hs1") (simp_all add: min_def)
    qed
    have "stdout (snd (io_bind f g w)) = stdout w @ ls1" "fst (io_bind f g w) = Inl e"
      using Inl fw l1 by (simp_all add: io_bind_def)
    with ex show ?thesis
      by (intro exI [of _ ls1]) (simp del: take_append)
  next
    case (Inr x)
    with s1 have h1: "steps_of ls1 = hs1" by simp
    obtain r2 w2 where gw: "g x w1 = (r2, w2)" by (cases "g x w1")
    from g [of x] obtain ls2 where l2: "stdout w2 = stdout w1 @ ls2"
      and s2: "case r2 of Inr r \<Rightarrow> steps_of ls2 = hs2 | Inl e \<Rightarrow> (\<exists>k. steps_of ls2 = take k hs2)"
      unfolding runs_steps_def using gw by (metis fst_conv snd_conv)
    have out: "stdout w2 = stdout w @ (ls1 @ ls2)" by (simp add: l1 l2)
    show ?thesis
    proof (cases r2)
      case (Inl e)
      with s2 obtain k where k: "steps_of ls2 = take k hs2" by auto
      have ex: "\<exists>k'. steps_of (ls1 @ ls2) = take k' (hs1 @ hs2)"
      proof (rule exI)
        show "steps_of (ls1 @ ls2) = take (length hs1 + k) (hs1 @ hs2)"
          using k by (simp add: steps_of_append h1)
      qed
      have "stdout (snd (io_bind f g w)) = stdout w @ (ls1 @ ls2)" "fst (io_bind f g w) = Inl e"
        using Inl \<open>r = Inr x\<close> fw gw out by (simp_all add: io_bind_def)
      with ex show ?thesis
        by (intro exI [of _ "ls1 @ ls2"]) (simp del: take_append)
    next
      case (Inr y)
      with s2 have "steps_of (ls1 @ ls2) = hs1 @ hs2"
        by (simp add: steps_of_append h1)
      with Inr \<open>r = Inr x\<close> fw gw out show ?thesis
        by (auto simp: io_bind_def)
    qed
  qed
qed

lemma runs_steps_then:
  "runs_steps hs1 f \<Longrightarrow> runs_steps hs2 g \<Longrightarrow> runs_steps (hs1 @ hs2) (io_then f g)"
  by (simp add: io_then_def runs_steps_bind)

lemma quiet_bind:
  "runs_steps [] f \<Longrightarrow> (\<And>x. runs_steps [] (g x)) \<Longrightarrow> runs_steps [] (io_bind f g)"
  using runs_steps_bind [of "[]" f "[]" g] by simp

lemma quiet_then: "runs_steps [] f \<Longrightarrow> runs_steps [] g \<Longrightarrow> runs_steps [] (io_then f g)"
  by (simp add: io_then_def quiet_bind)

lemma quiet_silent:
  assumes "\<And>w. stdout (snd (f w)) = stdout w"
  shows "runs_steps [] f"
  unfolding runs_steps_def
proof
  fix w
  have "stdout (snd (f w)) = stdout w @ [] \<and>
     (case fst (f w) of Inr r \<Rightarrow> steps_of [] = ([] :: string list)
      | Inl e \<Rightarrow> (\<exists>k. steps_of [] = take k ([] :: string list)))"
    by (simp add: assms steps_of_def split: sum.splits)
  then show "\<exists>ls. stdout (snd (f w)) = stdout w @ ls \<and>
     (case fst (f w) of Inr r \<Rightarrow> steps_of ls = ([] :: string list)
      | Inl e \<Rightarrow> (\<exists>k. steps_of ls = take k ([] :: string list)))"
    by blast
qed

lemma runs_print: "steps_of [l] = hs \<Longrightarrow> runs_steps hs (print l)"
  unfolding runs_steps_def by (auto simp: print_def)

lemma quiet_print: "steps_of [l] = [] \<Longrightarrow> runs_steps [] (print l)"
  by (rule runs_print)

lemma runs_print_header:
  "runs_steps (if s \<in> set step_headers then [s] else []) (print_header s)"
proof -
  have "runs_steps ([] @ (if s \<in> set step_headers then [s] else [])) (print_header s)"
    unfolding print_header_def
    by (intro runs_steps_then runs_print) (simp_all add: steps_of_def step_headers_def)
  then show ?thesis by simp
qed

lemma quiet_basic:
  "runs_steps [] (io_lift x)" "runs_steps [] (io_return y)" "runs_steps [] (open_read path)"
  "runs_steps [] (open_write path content)" "runs_steps [] (requests_get env url)"
  "runs_steps [] (makedirs d)"
  "runs_steps [] (\<lambda>w. if \<not> path_exists w d then makedirs d w else (Inr (), w))"
  by (rule quiet_silent;
      simp add: io_lift_def io_return_def open_read_def open_write_def requests_get_def makedirs_def
        Let_def split: option.splits)+

lemma quiet_md5: "runs_steps [] (get_md5_checksum env path)"
  by (simp add: get_md5_checksum_def quiet_bind quiet_basic)

lemma quiet_save_weights: "runs_steps [] (save_weights env m path)"
  by (rule quiet_silent) (simp add: save_weights_def io_raise_def open_write_def Let_def)

lemmas quiet_intros = quiet_bind quiet_then quiet_basic quiet_md5 quiet_print quiet_save_weights

lemma quiet_header_load:
  "runs_steps [] (print_header ''-> Load KerasHub model.'')"
  "runs_steps [] (print_header ''-> Load HF model.'')"
  "runs_steps [] (print_header ''-> Print MD5 checksum of the vocab files.'')"
  "runs_steps [] (print_header (''-> Save KerasHub model weights to `'' @ preset @ ''.h5`.''))"
  using runs_print_header [of "''-> Load KerasHub model.''"]
    runs_print_header [of "''-> Load HF model.''"]
    runs_print_header [of "''-> Print MD5 checksum of the vocab files.''"]
    runs_print_header [of "''-> Save KerasHub model weights to `'' @ preset @ ''.h5`.''"]
  by (simp_all add: step_headers_def)

lemma runs_download_files:
  "runs_steps [''-> Download original vocab and config.''] (download_files env preset hf)"
proof -
  have "runs_steps ([''-> Download original vocab and config.''] @ []) (download_files env preset hf)"
    unfolding download_files_def Let_def
    by (rule runs_steps_then, rule runs_print, simp add: steps_of_def step_headers_def)
      (intro quiet_intros; simp add: steps_of_def step_headers_def)
  then show ?thesis by simp
qed

lemma runs_define_preprocessor:
  "runs_steps [''-> Define the tokenizers.''] (define_preprocessor env preset hf)"
proof -
  have "runs_steps ([''-> Define the tokenizers.''] @ []) (define_preprocessor env preset hf)"
    unfolding define_preprocessor_def Let_def
    apply (rule runs_steps_then)
    using runs_print_header [of "''-> Define the tokenizers.''"] apply (simp add: step_headers_def)
    apply (intro quiet_intros quiet_header_load; simp add: steps_of_def step_headers_def)
    done
  then show ?thesis by simp
qed

lemma runs_convert_checkpoints:
  "runs_steps [''-> Convert original weights to KerasHub format.'']
     (convert_checkpoints env preset km hm)"
proof -
  have "runs_steps ([''-> Convert original weights to KerasHub format.''] @ [])
     (convert_checkpoints env preset km hm)"
    unfolding convert_checkpoints_def Let_def
    apply (rule runs_steps_then)
    using runs_print_header [of "''-> Convert original weights to KerasHub format.''"]
     apply (simp add: step_headers_def)
    apply (intro quiet_intros quiet_header_load; simp add: steps_of_def step_headers_def)
    done
  then show ?thesis by simp
qed

lemma runs_check_output:
  "runs_steps [''-> Check the outputs.''] (check_output env preset pp km tok hm)"
proof -
  have "runs_steps ([''-> Check the outputs.''] @ []) (check_output env preset pp km tok hm)"
    unfolding check_output_def
    apply (rule runs_steps_then)
    using runs_print_header [of "''-> Check the outputs.''"] apply (simp add: step_headers_def)
    apply (intro quiet_intros; simp add: steps_of_def step_headers_def)
    done
  then show ?thesis by simp
qed

lemma runs_main: "runs_steps step_headers (main env preset)"
proof -
  let ?h1 = "''-> Download original vocab and config.''"
  let ?h2 = "''-> Define the tokenizers.''"
  let ?h3 = "''-> Convert original weights to KerasHub format.''"
  let ?h4 = "''-> Check the outputs.''"
  have tail: "runs_steps ([] @ [] @ [] @ [] @ [?h3] @ [?h4])
     (io_then (print_header ''-> Load KerasHub model.'')
       (io_bind (io_lift (backbone_from_preset env preset)) (\<lambda>keras_hub_model.
        io_then (print_header ''-> Load HF model.'')
       (io_bind (io_lift (auto_model env hf)) (\<lambda>hf_model.
        io_bind (convert_checkpoints env preset keras_hub_model hf_model) (\<lambda>keras_hub_model.
        check_output env preset pp keras_hub_model tok hf_model))))))" for hf pp tok
    by (intro runs_steps_then runs_steps_bind quiet_header_load quiet_basic
        runs_convert_checkpoints runs_check_output)
  have "runs_steps ([] @ [?h1] @ [?h2] @ [?h3, ?h4]) (main env preset)"
    unfolding main_def
    apply (intro runs_steps_bind runs_steps_then quiet_basic runs_download_files
        runs_define_preprocessor)
    subgoal for hf x
      using tail [of hf "fst x" "snd x"] by (cases x) simp
    done
  then show ?thesis by (simp add: step_headers_def)
qed

lemma print_header_Inl: "print_header s w \<noteq> (Inl e, w')"
  by (simp add: print_header_eq)

lemma main_Inl:
  "main env preset w = (Inl e, w') \<longleftrightarrow>
     (map_of PRESET_MAP preset = None \<and> e = KeyError preset \<and> w' = w) \<or>
     (\<exists>hf. map_of PRESET_MAP preset = Some hf \<and>
        (download_files env preset hf w = (Inl e, w') \<or>
         (\<exists>w1. download_files env preset hf w = (Inr (), w1) \<and>
            (define_preprocessor env preset hf w1 = (Inl e, w') \<or>
             (\<exists>pp tok w2. define_preprocessor env preset hf w1 = (Inr (pp, tok), w2) \<and>
                (backbone_from_preset env preset = Inl e \<and>
                   w' = w2\<lparr>stdout := stdout w2 @ take 2 loading_lines\<rparr> \<or>
                 (\<exists>km. backbone_from_preset env preset = Inr km \<and>
                    (auto_model env hf = Inl e \<and> w' = w2\<lparr>stdout := stdout w2 @ loading_lines\<rparr> \<or>
                     (\<exists>hm. auto_model env hf = Inr hm \<and>
                        (convert_checkpoints env preset km hm (w2\<lparr>stdout := stdout w2 @ loading_lines\<rparr>) =
                           (Inl e, w') \<or>
                         (\<exists>km' w3.
                            convert_checkpoints env preset km hm (w2\<lparr>stdout := stdout w2 @ loading_lines\<rparr>) =
                              (Inr km', w3) \<and>
                            check_output env preset pp km' tok hm w3 = (Inl e, w'))))))))))))"
  unfolding main_def loading_lines_def
  by (auto simp: io_then_Inl io_bind_Inl io_then_Inr io_bind_Inr io_lift_eq print_header_eq
      split: option.splits)

lemma error_ofD: "error_of r = Some e \<Longrightarrow> r = Inl e"
  by (cases r) (simp_all add: error_of_def)

lemma download_offline:
  assumes "http_get env (hub_url hf ''config.json'') = None"
  shows "\<exists>w1. download_files env preset hf w = (Inl (ConnectionError (hub_url hf ''config.json'')), w1) \<and>
     requests_sent w1 = requests_sent w @ [plain_get (hub_url hf ''config.json'')] \<and>
     files w1 = files w"
  unfolding download_files_def Let_def
  by (simp add: io_then_def io_bind_def print_def makedirs_def requests_get_def plain_get_def assms)

lemma convert_json_error:
  assumes "files w (norm_path (path_join (EXTRACT_DIR preset) ''config.json'')) = Some text"
    and "json_loads env text = None"
  shows "convert_checkpoints env preset km hm w =
     (Inl JSONDecodeError, w\<lparr>stdout := stdout w @ convert_header\<rparr>)"
  unfolding convert_checkpoints_def Let_def convert_header_def
  by (simp add: io_then_def io_bind_def print_header_def print_def open_read_def io_lift_def assms)

lemma convert_remap_error:
  assumes "files w (norm_path (path_join (EXTRACT_DIR preset) ''config.json'')) = Some text"
    and "json_loads env text = Some doc" and "build_config doc = Inr cfg"
    and "remap_weights cfg (hf_state_dict hm) km = Inl e"
  shows "convert_checkpoints env preset km hm w =
     (Inl e, w\<lparr>stdout := stdout w @ convert_header @
        [ConfigLine cfg, Line ''Original weights:'', KeysLine (map fst (hf_state_dict hm))]\<rparr>)"
  unfolding convert_checkpoints_def Let_def convert_header_def
  by (simp add: io_then_def io_bind_def print_header_def print_def open_read_def io_lift_def assms)

lemma run_assignment_no_layer:
  "layers m (dst_layer s) = None \<Longrightarrow> run_assignment sd s m = Inl (NoSuchLayer (dst_layer s))"
  by (simp add: run_assignment_def get_variable_def)

lemma run_assignment_mismatch:
  assumes "get_variable m (dst_layer s) (dst_attr s) = Inr v" and "map_of sd (src_key s) = Some t"
    and "apply_ops (ops s) t = Inr t'" and "shape t' \<noteq> shape v"
  shows "run_assignment sd s m = Inl (ShapeMismatch (dst_layer s) (dst_attr s) (shape v) (shape t'))"
  using assms by (simp add: run_assignment_def assign_def)

lemma remap_first_error:
  assumes "all_assignments cfg (num_layers m) = xs @ s # ys"
    and "run_assignments sd xs m = Inr m1" and "run_assignment sd s m1 = Inl e"
  shows "remap_weights cfg sd m = Inl e"
  by (simp add: remap_weights_eq assms run_assignments_append)

lemma run_script_exit:
  "run_script env [(''preset'', preset)] w =
     (case main env preset w of (Inl e, w') \<Rightarrow> (1, w') | (Inr u, w') \<Rightarrow> (0, w'))"
  by (simp add: run_script_def parse_flags_def script_flags_def flag_value_def)

lemma main_never_returns: "main env preset w \<noteq> (Inr u, w')"
proof
  assume "main env preset w = (Inr u, w')"
  then obtain hf km hm km' w2 w3 where "map_of PRESET_MAP preset = Some hf"
    and "convert_checkpoints env preset km hm w2 = (Inr km', w3)"
    unfolding main_Inr by blast
  with convert_checkpoints_raises show False by blast
qed

lemma main_stops_in_convert:
  assumes "main env preset w = (r, w')"
  shows "\<exists>e. r = Inl e \<and>
     ((map_of PRESET_MAP preset = None \<and> e = KeyError preset \<and> w' = w) \<or>
      (\<exists>hf. map_of PRESET_MAP preset = Some hf \<and>
        (download_files env preset hf w = (Inl e, w') \<or>
         (\<exists>w1. download_files env preset hf w = (Inr (), w1) \<and>
            (define_preprocessor env preset hf w1 = (Inl e, w') \<or>
             (\<exists>pp tok w2. define_preprocessor env preset hf w1 = (Inr (pp, tok), w2) \<and>
                (backbone_from_preset env preset = Inl e \<and>
                   w' = w2\<lparr>stdout := stdout w2 @ take 2 loading_lines\<rparr> \<or>
                 (\<exists>km. backbone_from_preset env preset = Inr km \<and>
                    (auto_model env hf = Inl e \<and> w' = w2\<lparr>stdout := stdout w2 @ loading_lines\<rparr> \<or>
                     (\<exists>hm. auto_model env hf = Inr hm \<and>
                        convert_checkpoints env preset km hm (w2\<lparr>stdout := stdout w2 @ loading_lines\<rparr>) =
                           (Inl e, w')))))))))))"
proof (cases r)
  case (Inr u)
  with assms main_never_returns show ?thesis by blast
next
  case (Inl e)
  with assms have m: "main env preset w = (Inl e, w')" by simp
  have no: "convert_checkpoints env preset km hm v \<noteq> (Inr km', v')"
    if "map_of PRESET_MAP preset = Some hf" for hf km hm v km' v'
    using that by (rule convert_checkpoints_raises)
  show ?thesis
  proof (intro exI [of _ e] conjI Inl)
    from m [unfolded main_Inl]
    show "(map_of PRESET_MAP preset = None \<and> e = KeyError preset \<and> w' = w) \<or>
      (\<exists>hf. map_of PRESET_MAP preset = Some hf \<and>
        (download_files env preset hf w = (Inl e, w') \<or>
         (\<exists>w1. download_files env preset hf w = (Inr (), w1) \<and>
            (define_preprocessor env preset hf w1 = (Inl e, w') \<or>
             (\<exists>pp tok w2. define_preprocessor env preset hf w1 = (Inr (pp, tok), w2) \<and>
                (backbone_from_preset env preset = Inl e \<and>
                   w' = w2\<lparr>stdout := stdout w2 @ take 2 loading_lines\<rparr> \<or>
                 (\<exists>km. backbone_from_preset env preset = Inr km \<and>
                    (auto_model env hf = Inl e \<and> w' = w2\<lparr>stdout := stdout w2 @ loading_lines\<rparr> \<or>
                     (\<exists>hm. auto_model env hf = Inr hm \<and>
                        convert_checkpoints env preset km hm (w2\<lparr>stdout := stdout w2 @ loading_lines\<rparr>) =
                           (Inl e, w'))))))))))"
      using no by (elim disjE exE conjE) blast+
  qed
qed

lemma demo_main_raises:
  "error_of (fst (main demo_env demo_preset demo_world)) = Some save_error"
  by code_simp

lemma download_vocab_offline:
  assumes p: "map_of PRESET_MAP preset = Some hf"
    and d: "preset \<in> dirs w \<or> \<not> path_exists w (EXTRACT_DIR preset)"
    and nd: "preset @ ''/config.json'' \<notin> dirs w"
    and c: "http_get env (hub_url hf ''config.json'') = Some config"
    and v: "http_get env (hub_url hf ''vocab.txt'') = None"
  shows "\<exists>w1. download_files env preset hf w = (Inl (ConnectionError (hub_url hf ''vocab.txt'')), w1) \<and>
     requests_sent w1 = requests_sent w @
       [plain_get (hub_url hf ''config.json''), plain_get (hub_url hf ''vocab.txt'')] \<and>
     files w1 = (files w)(preset @ ''/config.json'' \<mapsto> config)"
proof -
  have cj: "CHR ''/'' \<notin> set ''config.json''" by simp
  have paths: "norm_path (path_join (EXTRACT_DIR preset) ''config.json'') = preset @ ''/config.json''"
    "dirname (preset @ ''/config.json'') = preset" "norm_path (EXTRACT_DIR preset) = preset"
    using preset_paths(1,2) [OF p cj] preset_paths(3) [OF p cj] by simp_all
  from preset_shape [OF p] have ne: "preset \<noteq> []" by simp
  have pe: "path_exists (w\<lparr>stdout := s\<rparr>) q = path_exists w q" for s q
    by (simp add: path_exists_def)
  from d show ?thesis
  proof
    assume "preset \<in> dirs w"
    then show ?thesis
      unfolding download_files_def Let_def
      by (simp add: io_then_def io_bind_def print_def makedirs_def requests_get_def plain_get_def
          open_write_def path_exists_def paths ne nd c v)
  next
    assume "\<not> path_exists w (EXTRACT_DIR preset)"
    then show ?thesis
      unfolding download_files_def Let_def
      by (simp add: io_then_def io_bind_def print_def makedirs_def requests_get_def plain_get_def
          open_write_def pe paths ne nd c v)
  qed
qed

lemma download_returns_online:
  assumes "download_files env preset hf w = (Inr u, w1)"
  shows "http_get env (hub_url hf ''config.json'') \<noteq> None \<and>
     http_get env (hub_url hf ''vocab.txt'') \<noteq> None"
  using assms
  unfolding download_files_def Let_def
  by (auto simp: io_then_Inr io_bind_Inr print_eq dest!: requests_get_cases split: option.splits)







section \<open>The claims\<close>

subsection \<open>The layout of the attention projections\<close>

text \<open>
  Claim C10. After a successful remapping, for every layer \<open>i\<close> and each of the query, key
  and value projections, the destination kernel is the source matrix \<open>W\<close> of shape
  \<open>[H, H]\<close> transposed and reshaped to \<open>(H, N, H div N)\<close>, so that
  \<open>kernel[h, n, d] = W[n * (H div N) + d, h]\<close>, and the destination bias is the source
  vector reshaped to \<open>(N, H div N)\<close>, so that \<open>bias[n, d] = b[n * (H div N) + d]\<close>.
  Here \<open>H\<close> and \<open>N\<close> are the configuration's \<^verbatim>\<open>hidden_dim\<close> and
  \<^verbatim>\<open>num_heads\<close>; that \<open>N\<close> divides \<open>H\<close> follows from the success of the reshape.
\<close>

theorem qkv_layout:
  assumes run: "remap_weights cfg hf_wts m = Inr m'"
    and cfg: "cfg_hidden_dim cfg = JInt (int H)" "cfg_num_heads cfg = JInt (int N)"
    and i: "i < num_layers m" and p: "(src, dst) \<in> set qkv_projections"
    and W: "map_of hf_wts (hf_key i (''.attention.'' @ src @ ''.weight'')) = Some W"
      "shape W = [H, H]" "wf_tensor W"
    and b: "map_of hf_wts (hf_key i (''.attention.'' @ src @ ''.bias'')) = Some b"
      "shape b = [H]" "wf_tensor b"
  shows "\<exists>K B. N dvd H \<and>
      get_variable m' (layer_name i) (''_self_attention_layer.'' @ dst @ ''.kernel'') = Inr K \<and>
      shape K = [H, N, H div N] \<and>
      (\<forall>h<H. \<forall>n<N. \<forall>d<H div N. at3 K h n d = at2 W (n * (H div N) + d) h) \<and>
      get_variable m' (layer_name i) (''_self_attention_layer.'' @ dst @ ''.bias'') = Inr B \<and>
      shape B = [N, H div N] \<and>
      (\<forall>n<N. \<forall>d<H div N. at2 B n d = at1 b (n * (H div N) + d))"
proof -
  from remap_weights_value [OF run i qkv_kernel_in_layer [OF p, of i cfg]] W(1)
  obtain K where K: "apply_ops [Transpose10, Reshape [JInt (int H), JInt (int N), JInt (- 1)], Numpy] W = Inr K"
    and gK: "get_variable m' (layer_name i) (''_self_attention_layer.'' @ dst @ ''.kernel'') = Inr K"
    by (auto simp: cfg)
  from remap_weights_value [OF run i qkv_bias_in_layer [OF p, of i cfg]] b(1)
  obtain B where B: "apply_ops [Reshape [JInt (int N), JInt (- 1)], Numpy] b = Inr B"
    and gB: "get_variable m' (layer_name i) (''_self_attention_layer.'' @ dst @ ''.bias'') = Inr B"
    by (auto simp: cfg)
  from kernel_elements [OF W(2,3) K] bias_elements [OF b(2,3) B] gK gB
  show ?thesis by blast
qed

theorem qkv_layout_witness:
  "\<exists>m' K B. remap_weights demo_cfg demo_hf_wts demo_model = Inr m' \<and>
     get_variable m' (layer_name 0) ''_self_attention_layer._key_dense.kernel'' = Inr K \<and>
     shape K = [4, 2, 2] \<and> at3 K 3 1 0 = at2 (ramp [4, 4] 1) 2 3 \<and> at3 K 3 1 0 = 12 \<and>
     get_variable m' (layer_name 0) ''_self_attention_layer._key_dense.bias'' = Inr B \<and>
     shape B = [2, 2] \<and> at2 B 1 1 = at1 (ramp [4] 1) 3 \<and> at2 B 1 1 = 4"
proof -
  from demo_remap_ok obtain m' where run: "remap_weights demo_cfg demo_hf_wts demo_model = Inr m'"
    by (auto simp: is_ok_def split: sum.splits)
  have cfg: "cfg_hidden_dim demo_cfg = JInt (int 4)" "cfg_num_heads demo_cfg = JInt (int 2)"
    by (simp_all add: demo_cfg_def)
  have i: "0 < num_layers demo_model" by (simp add: demo_model_def)
  have p: "(''k_lin'', ''_key_dense'') \<in> set qkv_projections" by (simp add: qkv_projections_def)
  have W: "map_of demo_hf_wts (hf_key 0 (''.attention.'' @ ''k_lin'' @ ''.weight'')) = Some (ramp [4, 4] 1)"
    "shape (ramp [4, 4] 1) = [4, 4]" "wf_tensor (ramp [4, 4] 1)"
    by code_simp+
  have b: "map_of demo_hf_wts (hf_key 0 (''.attention.'' @ ''k_lin'' @ ''.bias'')) = Some (ramp [4] 1)"
    "shape (ramp [4] 1) = [4]" "wf_tensor (ramp [4] 1)"
    by code_simp+
  from qkv_layout [OF run cfg i p W b] obtain K B where
    K: "get_variable m' (layer_name 0) ''_self_attention_layer._key_dense.kernel'' = Inr K"
      "shape K = [4, 2, 2]"
      "\<forall>h<4. \<forall>n<2. \<forall>d<2. at3 K h n d = at2 (ramp [4, 4] 1) (n * 2 + d) h"
    and B: "get_variable m' (layer_name 0) ''_self_attention_layer._key_dense.bias'' = Inr B"
      "shape B = [2, 2]" "\<forall>n<2. \<forall>d<2. at2 B n d = at1 (ramp [4] 1) (n * 2 + d)"
    by auto
  from K(3) have k: "at3 K 3 1 0 = at2 (ramp [4, 4] 1) 2 3" by simp
  from B(3) have bb: "at2 B 1 1 = at1 (ramp [4] 1) 3" by simp
  have v: "at2 (ramp [4, 4] 1) 2 3 = 12" "at1 (ramp [4] 1) 3 = 4" by code_simp+
  from run K(1,2) B(1,2) k bb v show ?thesis by auto
qed

subsection \<open>Shape agreement\<close>

text \<open>
  Claim C8, as amended. When the source tensors have the DistilBERT shapes of the
  configuration and the destination variables have the shapes that the same
  configuration gives them, with a positive \<^verbatim>\<open>hidden_dim\<close> divisible by
  \<^verbatim>\<open>num_heads\<close>, every statement of the remapping passes the shape check of its
  \<^verbatim>\<open>assign\<close>: the remapping returns a model and raises nothing. The hypothesis on
  the destination is needed: without it the first assignment of the loop can raise
  the shape mismatch, as a configuration with one head and a destination model built
  with two show further down.
\<close>

theorem shapes_never_mismatch:
  assumes "cfg_hidden_dim cfg = JInt (int (dim_hidden d))"
    and "cfg_num_heads cfg = JInt (int (dim_heads d))"
    and "0 < dim_hidden d" and "dim_heads d dvd dim_hidden d"
    and hf: "has_hf_shapes d (num_layers m) hf_wts" and ke: "has_keras_shapes d m"
  shows "\<exists>m'. remap_weights cfg hf_wts m = Inr m'"
proof -
  have "assignment_ok hf_wts m s" if "s \<in> set (all_assignments cfg (num_layers m))" for s
  proof (cases "s \<in> set embedding_assignments")
    case True
    from hf have "list_all (\<lambda>(k, s). has_tensor hf_wts k s) (hf_embedding_shapes d)"
      by (simp add: has_hf_shapes_def)
    moreover from ke
    have "list_all (\<lambda>((l, a), s). has_variable m l a s) (keras_embedding_shapes d)"
      by (simp add: has_keras_shapes_def)
    ultimately show ?thesis
      using True by (rule embedding_ok)
  next
    case False
    with that obtain i where i: "i < num_layers m" "s \<in> set (layer_assignments cfg i)"
      by (auto simp: all_assignments_def)
    from hf i(1) have "list_all (\<lambda>(k, s). has_tensor hf_wts (hf_key i k) s) (hf_layer_shapes d)"
      by (simp add: has_hf_shapes_def list_all_iff)
    moreover from ke i(1)
    have "list_all (\<lambda>(a, s). has_variable m (layer_name i) a s) (keras_layer_shapes d)"
      by (simp add: has_keras_shapes_def list_all_iff)
    ultimately show ?thesis
      using layer_ok [OF assms(1-4) _ _ i(2)] by blast
  qed
  then show ?thesis
    unfolding remap_weights_eq by (rule run_assignments_ok)
qed

theorem shapes_never_mismatch_witness:
  "cfg_hidden_dim demo_cfg = JInt (int (dim_hidden demo_dims)) \<and>
   cfg_num_heads demo_cfg = JInt (int (dim_heads demo_dims)) \<and>
   0 < dim_hidden demo_dims \<and> dim_heads demo_dims dvd dim_hidden demo_dims \<and>
   has_hf_shapes demo_dims (num_layers demo_model) demo_hf_wts \<and>
   has_keras_shapes demo_dims demo_model \<and>
   (\<exists>m'. remap_weights demo_cfg demo_hf_wts demo_model = Inr m')"
proof -
  have 1: "cfg_hidden_dim demo_cfg = JInt (int (dim_hidden demo_dims))"
    and 2: "cfg_num_heads demo_cfg = JInt (int (dim_heads demo_dims))"
    and 3: "0 < dim_hidden demo_dims" and 4: "dim_heads demo_dims dvd dim_hidden demo_dims"
    by (simp_all add: demo_cfg_def demo_dims_def)
  have 5: "has_hf_shapes demo_dims (num_layers demo_model) demo_hf_wts"
    by code_simp
  have 6: "has_keras_shapes demo_dims demo_model"
    by code_simp
  from shapes_never_mismatch [OF 1 2 3 4 5 6] 1 2 3 4 5 6 show ?thesis
    by blast
qed

subsection \<open>What one iteration of the loop copies\<close>

text \<open>
  Claim C1, as amended. For every layer index \<open>i\<close> below the model's number of layers, a
  successful remapping copies exactly sixteen tensors of that layer: the kernel and the
  bias of the query, key, value and output projections and of the two feed-forward
  layers, and the gamma and the beta of the two layer norms. Each comes from a key
  \<^verbatim>\<open>transformer.layer.i...\<close> of the source and lands in an attribute of
  \<^verbatim>\<open>transformer_layer_i\<close>, after one of five fixed chains of transposition and
  reshape; every other attribute of the layer keeps its variable.
\<close>

theorem layer_copies_sixteen_tensors:
  assumes run: "remap_weights cfg hf_wts m = Inr m'" and i: "i < num_layers m"
  shows "length (layer_assignments cfg i) = 16 \<and>
     distinct (map dst_attr (layer_assignments cfg i)) \<and>
     distinct (map src_key (layer_assignments cfg i)) \<and>
     (\<forall>s\<in>set (layer_assignments cfg i).
        dst_layer s = layer_name i \<and> (\<exists>suffix. src_key s = hf_key i suffix) \<and>
        ops s \<in> set (fixed_op_chains cfg) \<and>
        (\<exists>t t'. map_of hf_wts (src_key s) = Some t \<and> apply_ops (ops s) t = Inr t' \<and>
           get_variable m' (layer_name i) (dst_attr s) = Inr t')) \<and>
     (\<forall>a. a \<notin> dst_attr ` set (layer_assignments cfg i) \<longrightarrow>
        get_variable m' (layer_name i) a = get_variable m (layer_name i) a)"
proof -
  have "dst_layer s = layer_name i \<and> (\<exists>suffix. src_key s = hf_key i suffix) \<and>
        ops s \<in> set (fixed_op_chains cfg) \<and>
        (\<exists>t t'. map_of hf_wts (src_key s) = Some t \<and> apply_ops (ops s) t = Inr t' \<and>
           get_variable m' (layer_name i) (dst_attr s) = Inr t')"
    if s: "s \<in> set (layer_assignments cfg i)" for s
    using remap_weights_value [OF run i s] layer_assignments_shape [OF s]
      layer_assignments_dst [OF s] by simp
  moreover have "distinct (map dst_attr (layer_assignments cfg i))"
    by (simp add: layer_assignments_attrs distinct_layer_attrs)
  ultimately show ?thesis
    using layer_assignments_length layer_assignments_keys_distinct layer_frame [OF run]
    by blast
qed

theorem layer_copies_sixteen_tensors_witness:
  "\<exists>m'. remap_weights demo_cfg demo_hf_wts demo_model = Inr m' \<and> 0 < num_layers demo_model \<and>
     length (layer_assignments demo_cfg 0) = 16 \<and>
     get_variable m' (layer_name 0) ''_feedforward_output_dense.kernel'' =
       Inr \<lparr>shape = [1, 4], data = [1, 2, 3, 4]\<rparr> \<and>
     get_variable m' (layer_name 0) ''_self_attention_layer._query_dense.kernel'' =
       Inr \<lparr>shape = [4, 2, 2], data = [1, 5, 9, 13, 2, 6, 10, 14, 3, 7, 11, 15, 4, 8, 12, 16]\<rparr> \<and>
     get_variable m' (layer_name 0) ''not_a_weight'' = get_variable demo_model (layer_name 0) ''not_a_weight''"
proof -
  from demo_remap_ok obtain m' where run: "remap_weights demo_cfg demo_hf_wts demo_model = Inr m'"
    by (auto simp: is_ok_def split: sum.splits)
  have i: "0 < num_layers demo_model" by (simp add: demo_model_def)
  note c1 = layer_copies_sixteen_tensors [OF run i]
  let ?ffn = "\<lparr>dst_layer = layer_name 0, dst_attr = ''_feedforward_output_dense.kernel'',
       src_key = hf_key 0 ''.ffn.lin2.weight'', ops = [Transpose10, Numpy]\<rparr>"
  let ?q = "\<lparr>dst_layer = layer_name 0, dst_attr = ''_self_attention_layer._query_dense.kernel'',
       src_key = hf_key 0 ''.attention.q_lin.weight'',
       ops = [Transpose10, Reshape [cfg_hidden_dim demo_cfg, cfg_num_heads demo_cfg, JInt (- 1)], Numpy]\<rparr>"
  have mem: "?ffn \<in> set (layer_assignments demo_cfg 0)" "?q \<in> set (layer_assignments demo_cfg 0)"
    by (simp_all add: layer_assignments_def)
  have src: "map_of demo_hf_wts (hf_key 0 ''.ffn.lin2.weight'') = Some (ramp [4, 1] 1)"
    "apply_ops [Transpose10, Numpy] (ramp [4, 1] 1) = Inr \<lparr>shape = [1, 4], data = [1, 2, 3, 4]\<rparr>"
    "map_of demo_hf_wts (hf_key 0 ''.attention.q_lin.weight'') = Some (ramp [4, 4] 1)"
    "apply_ops [Transpose10, Reshape [cfg_hidden_dim demo_cfg, cfg_num_heads demo_cfg, JInt (- 1)], Numpy]
       (ramp [4, 4] 1) =
     Inr \<lparr>shape = [4, 2, 2], data = [1, 5, 9, 13, 2, 6, 10, 14, 3, 7, 11, 15, 4, 8, 12, 16]\<rparr>"
    by code_simp+
  from c1 mem(1) src(1,2)
  have f: "get_variable m' (layer_name 0) ''_feedforward_output_dense.kernel'' =
       Inr \<lparr>shape = [1, 4], data = [1, 2, 3, 4]\<rparr>"
    by fastforce
  from c1 mem(2) src(3,4)
  have q: "get_variable m' (layer_name 0) ''_self_attention_layer._query_dense.kernel'' =
       Inr \<lparr>shape = [4, 2, 2], data = [1, 5, 9, 13, 2, 6, 10, 14, 3, 7, 11, 15, 4, 8, 12, 16]\<rparr>"
    by fastforce
  have "''not_a_weight'' \<notin> dst_attr ` set (layer_assignments demo_cfg 0)"
    by (simp add: layer_assignments_def)
  with c1 have n: "get_variable m' (layer_name 0) ''not_a_weight'' =
      get_variable demo_model (layer_name 0) ''not_a_weight''"
    by blast
  from run i c1 f q n show ?thesis by blast
qed

text \<open>
  The claim as written, with six tensors to a layer, fails: on a model of one layer the
  remapping changes sixteen variables of \<^verbatim>\<open>transformer_layer_0\<close>.
\<close>

theorem six_tensors_counterexample:
  "\<exists>m'. remap_weights demo_cfg demo_hf_wts demo_model = Inr m' \<and>
     card (changed_attrs demo_model m' (layer_name 0)) = 16 \<and>
     card (changed_attrs demo_model m' (layer_name 0)) \<noteq> 6"
proof -
  from demo_remap_ok obtain m' where run: "remap_weights demo_cfg demo_hf_wts demo_model = Inr m'"
    by (auto simp: is_ok_def split: sum.splits)
  have i: "0 < num_layers demo_model" by (simp add: demo_model_def)
  have sub: "changed_attrs demo_model m' (layer_name 0) \<subseteq> dst_attr ` set (layer_assignments demo_cfg 0)"
    using layer_frame [OF run] by (auto simp: changed_attrs_def)
  have sup: "dst_attr s \<in> changed_attrs demo_model m' (layer_name 0)"
    if s: "s \<in> set (layer_assignments demo_cfg 0)" for s
  proof -
    from demo_overwrites s have "overwrites demo_hf_wts demo_model s"
      by (simp add: list_all_iff)
    with remap_weights_value [OF run i s] layer_assignments_dst [OF s]
    show ?thesis
      by (auto simp: overwrites_def changed_attrs_def)
  qed
  from sub sup have "changed_attrs demo_model m' (layer_name 0) = set layer_attrs"
    unfolding layer_assignments_attrs [of demo_cfg 0, symmetric] by auto
  then have "card (changed_attrs demo_model m' (layer_name 0)) = 16"
    using distinct_card [OF distinct_layer_attrs] by (simp add: layer_attrs_def)
  with run show ?thesis by simp
qed

subsection \<open>An unknown preset\<close>

text \<open>
  Claim C9. When the value of \<^verbatim>\<open>--preset\<close> is not a key of \<^verbatim>\<open>PRESET_MAP\<close>,
  \<^verbatim>\<open>main\<close> raises the \<^verbatim>\<open>KeyError\<close> of its first statement and returns the world
  it was given: no request sent, no directory made, no file written, nothing printed.
\<close>

theorem unknown_preset_changes_nothing:
  assumes "preset \<notin> fst ` set PRESET_MAP"
  shows "main env preset w = (Inl (KeyError preset), w)"
proof -
  from assms have "map_of PRESET_MAP preset = None"
    by (simp add: map_of_eq_None_iff)
  then show ?thesis
    by (simp add: main_def io_bind_def io_lift_def)
qed

theorem unknown_preset_changes_nothing_witness:
  "''bert_base_en'' \<notin> fst ` set PRESET_MAP \<and>
   main demo_env ''bert_base_en'' demo_world = (Inl (KeyError ''bert_base_en''), demo_world)"
proof -
  have h: "''bert_base_en'' \<notin> fst ` set PRESET_MAP"
    by (simp add: PRESET_MAP_def)
  from unknown_preset_changes_nothing [OF h] h show ?thesis by simp
qed

subsection \<open>The downloads\<close>

text \<open>
  Claim C6. For every preset, with \<open>hf\<close> its upstream model name in
  \<^verbatim>\<open>PRESET_MAP\<close>, the requests \<^verbatim>\<open>download_files\<close> sends are, in this order, a GET of
  \<^verbatim>\<open>https://huggingface.co/hf/raw/main/config.json\<close> and a GET of
  \<^verbatim>\<open>https://huggingface.co/hf/raw/main/vocab.txt\<close>, each with no header and no
  credentials given: both of them when it returns, and none, the first or both when it
  raises.
\<close>

theorem downloads_are_plain_gets:
  assumes "map_of PRESET_MAP preset = Some hf" and "download_files env preset hf w = (r, w')"
  shows "requests_sent w' \<in>
      {requests_sent w,
       requests_sent w @
         [\<lparr>req_method = ''GET'', req_url = ''https://huggingface.co/'' @ hf @ ''/raw/main/config.json'',
           req_headers = [], req_auth = None\<rparr>],
       requests_sent w @
         [\<lparr>req_method = ''GET'', req_url = ''https://huggingface.co/'' @ hf @ ''/raw/main/config.json'',
           req_headers = [], req_auth = None\<rparr>,
          \<lparr>req_method = ''GET'', req_url = ''https://huggingface.co/'' @ hf @ ''/raw/main/vocab.txt'',
           req_headers = [], req_auth = None\<rparr>]} \<and>
     ((\<exists>u. r = Inr u) \<longrightarrow> requests_sent w' =
       requests_sent w @
         [\<lparr>req_method = ''GET'', req_url = ''https://huggingface.co/'' @ hf @ ''/raw/main/config.json'',
           req_headers = [], req_auth = None\<rparr>,
          \<lparr>req_method = ''GET'', req_url = ''https://huggingface.co/'' @ hf @ ''/raw/main/vocab.txt'',
           req_headers = [], req_auth = None\<rparr>])"
  using download_files_requests [OF assms(2)]
  by (simp add: plain_get_def hub_url_def)

theorem downloads_are_plain_gets_witness:
  "map_of PRESET_MAP demo_preset = Some ''distilbert-base-uncased'' \<and>
   fst (download_files demo_env demo_preset ''distilbert-base-uncased'' demo_world) = Inr () \<and>
   requests_sent (snd (download_files demo_env demo_preset ''distilbert-base-uncased'' demo_world)) =
     [\<lparr>req_method = ''GET'', req_url = ''https://huggingface.co/distilbert-base-uncased/raw/main/config.json'',
       req_headers = [], req_auth = None\<rparr>,
      \<lparr>req_method = ''GET'', req_url = ''https://huggingface.co/distilbert-base-uncased/raw/main/vocab.txt'',
       req_headers = [], req_auth = None\<rparr>]"
proof -
  let ?run = "download_files demo_env demo_preset ''distilbert-base-uncased'' demo_world"
  have h: "map_of PRESET_MAP demo_preset = Some ''distilbert-base-uncased''"
    by (simp add: PRESET_MAP_def demo_preset_def)
  have e: "?run = (fst ?run, snd ?run)" by simp
  have ok: "fst ?run = Inr ()" by code_simp
  have "requests_sent demo_world = []" by (simp add: demo_world_def)
  with downloads_are_plain_gets [OF h e] ok h show ?thesis
    by simp
qed

subsection \<open>The final check\<close>



subsection \<open>The weights file\<close>

text \<open>
  Claim C3 fails on the code. \<^verbatim>\<open>convert_checkpoints\<close> saves the weights under the name
  \<^verbatim>\<open>preset.h5\<close>, which does not end in \<^verbatim>\<open>.weights.h5\<close>, so
  \<^verbatim>\<open>save_weights\<close> raises and, by \<open>main_never_returns\<close>, no run of \<^verbatim>\<open>main\<close>
  returns. On the preset \<^verbatim>\<open>distil_bert_base_en_uncased\<close>, with the hub answering and
  both models loading, \<^verbatim>\<open>main\<close> raises the \<^verbatim>\<open>ValueError\<close> after it has written
  \<^verbatim>\<open>config.json\<close> and \<^verbatim>\<open>vocab.txt\<close> into the preset's directory, and the weights
  file does not exist.
\<close>

theorem weights_file_not_written:
  "\<exists>w'. main demo_env demo_preset demo_world =
        (Inl (ValueError ''The filename must end in `.weights.h5`.''), w') \<and>
     files w' ''distil_bert_base_en_uncased/config.json'' = Some ''{}'' \<and>
     files w' ''distil_bert_base_en_uncased/vocab.txt'' = Some ''[PAD]'' \<and>
     files w' ''distil_bert_base_en_uncased.h5'' = None \<and>
     dirs w' = {''distil_bert_base_en_uncased''}"
proof -
  let ?run = "main demo_env demo_preset demo_world"
  from demo_main_raises have "fst ?run = Inl save_error" by (rule error_ofD)
  then have "?run = (Inl (ValueError ''The filename must end in `.weights.h5`.''), snd ?run)"
    unfolding save_error_def by (metis prod.collapse)
  moreover have "files (snd ?run) ''distil_bert_base_en_uncased/config.json'' = Some ''{}''"
    "files (snd ?run) ''distil_bert_base_en_uncased/vocab.txt'' = Some ''[PAD]''"
    "files (snd ?run) ''distil_bert_base_en_uncased.h5'' = None"
    "dirs (snd ?run) = {''distil_bert_base_en_uncased''}"
    by code_simp+
  ultimately show ?thesis by blast
qed

subsection \<open>The order of the steps\<close>

text \<open>
  Claim C5 fails on the code. \<^verbatim>\<open>main\<close> calls the four functions in the order of the
  claim, with the two model loads between the second and the third, but the third,
  \<^verbatim>\<open>convert_checkpoints\<close>, raises at \<^verbatim>\<open>save_weights\<close> for every preset of
  \<^verbatim>\<open>PRESET_MAP\<close>, so the fourth, \<^verbatim>\<open>check_output\<close>, never runs
  (\<open>main_stops_in_convert\<close>). On the preset \<^verbatim>\<open>distil_bert_base_en_uncased\<close>:
  \<^verbatim>\<open>download_files\<close> and \<^verbatim>\<open>define_preprocessor\<close> return, \<^verbatim>\<open>convert_checkpoints\<close>
  raises, \<^verbatim>\<open>main\<close> ends in the world that error left, and the headings printed are
  those of the first three steps.
\<close>

theorem output_check_never_runs:
  "\<exists>w1 pp tok w2 w'.
     download_files demo_env demo_preset ''distilbert-base-uncased'' demo_world = (Inr (), w1) \<and>
     define_preprocessor demo_env demo_preset ''distilbert-base-uncased'' w1 = (Inr (pp, tok), w2) \<and>
     convert_checkpoints demo_env demo_preset demo_model demo_hf_model
       (w2\<lparr>stdout := stdout w2 @ loading_lines\<rparr>) =
       (Inl (ValueError ''The filename must end in `.weights.h5`.''), w') \<and>
     main demo_env demo_preset demo_world =
       (Inl (ValueError ''The filename must end in `.weights.h5`.''), w') \<and>
     steps_of (stdout w') =
       [''-> Download original vocab and config.'', ''-> Define the tokenizers.'',
        ''-> Convert original weights to KerasHub format.''] \<and>
     Line ''-> Check the outputs.'' \<notin> set (stdout w')"
proof -
  let ?hf = "''distilbert-base-uncased''"
  let ?d = "download_files demo_env demo_preset ?hf demo_world"
  let ?t = "define_preprocessor demo_env demo_preset ?hf (snd ?d)"
  let ?c = "convert_checkpoints demo_env demo_preset demo_model demo_hf_model
       (snd ?t\<lparr>stdout := stdout (snd ?t) @ loading_lines\<rparr>)"
  have "fst ?d = Inr ()" by code_simp
  then have d: "?d = (Inr (), snd ?d)" by (metis prod.collapse)
  have "is_ok (fst ?t)" by code_simp
  then obtain x where "fst ?t = Inr x" by (auto simp: is_ok_def split: sum.splits)
  then have t: "?t = (Inr (fst x, snd x), snd ?t)" by (metis prod.collapse)
  have "error_of (fst ?c) = Some save_error" by code_simp
  then have "fst ?c = Inl save_error" by (rule error_ofD)
  then have c: "?c = (Inl save_error, snd ?c)" by (metis prod.collapse)
  have p: "map_of PRESET_MAP demo_preset = Some ?hf"
    by (simp add: PRESET_MAP_def demo_preset_def)
  have l: "backbone_from_preset demo_env demo_preset = Inr demo_model"
    "auto_model demo_env ?hf = Inr demo_hf_model"
    by (simp_all add: demo_env_def)
  have m: "main demo_env demo_preset demo_world = (Inl save_error, snd ?c)"
    unfolding main_Inl using p d t l c by blast
  have s: "steps_of (stdout (snd ?c)) =
       [''-> Download original vocab and config.'', ''-> Define the tokenizers.'',
        ''-> Convert original weights to KerasHub format.'']"
    "Line ''-> Check the outputs.'' \<notin> set (stdout (snd ?c))"
    by code_simp+
  show ?thesis
    using d t c m s unfolding save_error_def
    by (intro exI [of _ "snd ?d"] exI [of _ "fst x"] exI [of _ "snd x"] exI [of _ "snd ?t"]
        exI [of _ "snd ?c"] conjI)
qed

subsection \<open>Shape agreement without the destination's shapes\<close>

text \<open>
  Claim C8 as written, with a hypothesis on the source tensors only, fails: when the
  configuration gives one head and the destination model was built with two, the
  source tensors have the shapes of the configuration, \<^verbatim>\<open>hidden_dim\<close> is positive and
  divisible by \<^verbatim>\<open>num_heads\<close>, and the first assignment of the loop raises the shape
  mismatch.
\<close>

theorem source_shapes_counterexample:
  "cfg_hidden_dim one_head_cfg = JInt (int (dim_hidden one_head_dims)) \<and>
   cfg_num_heads one_head_cfg = JInt (int (dim_heads one_head_dims)) \<and>
   0 < dim_hidden one_head_dims \<and> dim_heads one_head_dims dvd dim_hidden one_head_dims \<and>
   has_hf_shapes one_head_dims (num_layers demo_model) demo_hf_wts \<and>
   remap_weights one_head_cfg demo_hf_wts demo_model =
     Inl (ShapeMismatch ''transformer_layer_0'' ''_self_attention_layer._query_dense.kernel''
            [4, 2, 2] [4, 1, 4])"
proof -
  have "cfg_hidden_dim one_head_cfg = JInt (int (dim_hidden one_head_dims))"
    "cfg_num_heads one_head_cfg = JInt (int (dim_heads one_head_dims))"
    "0 < dim_hidden one_head_dims" "dim_heads one_head_dims dvd dim_hidden one_head_dims"
    by (simp_all add: one_head_cfg_def one_head_dims_def demo_cfg_def demo_dims_def)
  moreover have "has_hf_shapes one_head_dims (num_layers demo_model) demo_hf_wts"
    by code_simp
  moreover have "remap_weights one_head_cfg demo_hf_wts demo_model =
     Inl (ShapeMismatch ''transformer_layer_0'' ''_self_attention_layer._query_dense.kernel''
            [4, 2, 2] [4, 1, 4])"
    by (rule error_ofD) code_simp
  ultimately show ?thesis by (intro conjI)
qed

subsection \<open>Errors are not handled\<close>

text \<open>
  Claim C2. The script has no handler, no retry and no recovery.
  (1) \<^verbatim>\<open>main\<close> raises \<open>e\<close> and leaves the world \<open>w'\<close> exactly when its first failing
  statement raises \<open>e\<close> and leaves \<open>w'\<close>: the lookup of the preset, the download, the
  tokenizer setup, either of the two model loads, the conversion or the output check;
  nothing runs after it.
  (2) A network failure on the first download raises out of \<^verbatim>\<open>download_files\<close> after
  that one request, with no file written. A network failure on the second download,
  where the preset's directory can be written, raises after the two requests with only
  \<^verbatim>\<open>config.json\<close> written. And a \<^verbatim>\<open>download_files\<close> that returns had no network
  failure on either request.
  (3) A JSON parse error on \<^verbatim>\<open>config.json\<close> raises out of
  \<^verbatim>\<open>convert_checkpoints\<close> after its heading.
  (4) An error of the weight remapping raises out of \<^verbatim>\<open>convert_checkpoints\<close> before
  anything is saved; the remapping stops at its first failing assignment, which raises
  for a missing layer and for a value whose shape is not the variable's.
  (5) When \<^verbatim>\<open>main\<close> raises, the process ends with status 1 in the world the error
  left.
\<close>

theorem errors_propagate:
  "(main env preset w = (Inl e, w') \<longleftrightarrow>
     (map_of PRESET_MAP preset = None \<and> e = KeyError preset \<and> w' = w) \<or>
     (\<exists>hf. map_of PRESET_MAP preset = Some hf \<and>
        (download_files env preset hf w = (Inl e, w') \<or>
         (\<exists>w1. download_files env preset hf w = (Inr (), w1) \<and>
            (define_preprocessor env preset hf w1 = (Inl e, w') \<or>
             (\<exists>pp tok w2. define_preprocessor env preset hf w1 = (Inr (pp, tok), w2) \<and>
                (backbone_from_preset env preset = Inl e \<and>
                   w' = w2\<lparr>stdout := stdout w2 @ take 2 loading_lines\<rparr> \<or>
                 (\<exists>km. backbone_from_preset env preset = Inr km \<and>
                    (auto_model env hf = Inl e \<and> w' = w2\<lparr>stdout := stdout w2 @ loading_lines\<rparr> \<or>
                     (\<exists>hm. auto_model env hf = Inr hm \<and>
                        (convert_checkpoints env preset km hm (w2\<lparr>stdout := stdout w2 @ loading_lines\<rparr>) =
                           (Inl e, w') \<or>
                         (\<exists>km' w3.
                            convert_checkpoints env preset km hm (w2\<lparr>stdout := stdout w2 @ loading_lines\<rparr>) =
                              (Inr km', w3) \<and>
                            check_output env preset pp km' tok hm w3 = (Inl e, w'))))))))))))) \<and>
   (http_get env (hub_url hf0 ''config.json'') = None \<longrightarrow>
      (\<exists>w1. download_files env preset hf0 w = (Inl (ConnectionError (hub_url hf0 ''config.json'')), w1) \<and>
         requests_sent w1 = requests_sent w @ [plain_get (hub_url hf0 ''config.json'')] \<and>
         files w1 = files w)) \<and>
   (files w (norm_path (path_join (EXTRACT_DIR preset) ''config.json'')) = Some body \<and>
    json_loads env body = None \<longrightarrow>
      convert_checkpoints env preset km0 hm0 w =
        (Inl JSONDecodeError, w\<lparr>stdout := stdout w @ convert_header\<rparr>)) \<and>
   (files w (norm_path (path_join (EXTRACT_DIR preset) ''config.json'')) = Some body \<and>
    json_loads env body = Some doc \<and> build_config doc = Inr cfg \<and>
    remap_weights cfg (hf_state_dict hm0) km0 = Inl e0 \<longrightarrow>
      convert_checkpoints env preset km0 hm0 w =
        (Inl e0, w\<lparr>stdout := stdout w @ convert_header @
           [ConfigLine cfg, Line ''Original weights:'', KeysLine (map fst (hf_state_dict hm0))]\<rparr>)) \<and>
   (all_assignments cfg (num_layers km0) = xs @ s # ys \<and>
    run_assignments (hf_state_dict hm0) xs km0 = Inr m1 \<and>
    run_assignment (hf_state_dict hm0) s m1 = Inl e0 \<longrightarrow>
      remap_weights cfg (hf_state_dict hm0) km0 = Inl e0) \<and>
   (layers m1 (dst_layer s) = None \<longrightarrow>
      run_assignment (hf_state_dict hm0) s m1 = Inl (NoSuchLayer (dst_layer s))) \<and>
   (get_variable m1 (dst_layer s) (dst_attr s) = Inr v \<and>
    map_of (hf_state_dict hm0) (src_key s) = Some t \<and> apply_ops (ops s) t = Inr t' \<and>
    shape t' \<noteq> shape v \<longrightarrow>
      run_assignment (hf_state_dict hm0) s m1 =
        Inl (ShapeMismatch (dst_layer s) (dst_attr s) (shape v) (shape t'))) \<and>
   (main env preset w = (Inl e, w') \<longrightarrow> run_script env [(''preset'', preset)] w = (1, w')) \<and>
   (map_of PRESET_MAP preset = Some hf0 \<and>
    (preset \<in> dirs w \<or> \<not> path_exists w (EXTRACT_DIR preset)) \<and>
    preset @ ''/config.json'' \<notin> dirs w \<and>
    http_get env (hub_url hf0 ''config.json'') = Some config \<and>
    http_get env (hub_url hf0 ''vocab.txt'') = None \<longrightarrow>
      (\<exists>w1. download_files env preset hf0 w = (Inl (ConnectionError (hub_url hf0 ''vocab.txt'')), w1) \<and>
         requests_sent w1 = requests_sent w @
           [plain_get (hub_url hf0 ''config.json''), plain_get (hub_url hf0 ''vocab.txt'')] \<and>
         files w1 = (files w)(preset @ ''/config.json'' \<mapsto> config))) \<and>
   (download_files env preset hf0 w = (Inr u0, w0) \<longrightarrow>
      http_get env (hub_url hf0 ''config.json'') \<noteq> None \<and>
      http_get env (hub_url hf0 ''vocab.txt'') \<noteq> None)"
proof (intro conjI impI)
  show "main env preset w = (Inl e, w') \<longleftrightarrow>
     (map_of PRESET_MAP preset = None \<and> e = KeyError preset \<and> w' = w) \<or>
     (\<exists>hf. map_of PRESET_MAP preset = Some hf \<and>
        (download_files env preset hf w = (Inl e, w') \<or>
         (\<exists>w1. download_files env preset hf w = (Inr (), w1) \<and>
            (define_preprocessor env preset hf w1 = (Inl e, w') \<or>
             (\<exists>pp tok w2. define_preprocessor env preset hf w1 = (Inr (pp, tok), w2) \<and>
                (backbone_from_preset env preset = Inl e \<and>
                   w' = w2\<lparr>stdout := stdout w2 @ take 2 loading_lines\<rparr> \<or>
                 (\<exists>km. backbone_from_preset env preset = Inr km \<and>
                    (auto_model env hf = Inl e \<and> w' = w2\<lparr>stdout := stdout w2 @ loading_lines\<rparr> \<or>
                     (\<exists>hm. auto_model env hf = Inr hm \<and>
                        (convert_checkpoints env preset km hm (w2\<lparr>stdout := stdout w2 @ loading_lines\<rparr>) =
                           (Inl e, w') \<or>
                         (\<exists>km' w3.
                            convert_checkpoints env preset km hm (w2\<lparr>stdout := stdout w2 @ loading_lines\<rparr>) =
                              (Inr km', w3) \<and>
                            check_output env preset pp km' tok hm w3 = (Inl e, w'))))))))))))"
    by (rule main_Inl)
next
  assume "http_get env (hub_url hf0 ''config.json'') = None"
  then show "\<exists>w1. download_files env preset hf0 w = (Inl (ConnectionError (hub_url hf0 ''config.json'')), w1) \<and>
         requests_sent w1 = requests_sent w @ [plain_get (hub_url hf0 ''config.json'')] \<and>
         files w1 = files w"
    by (rule download_offline)
next
  assume "files w (norm_path (path_join (EXTRACT_DIR preset) ''config.json'')) = Some body \<and>
    json_loads env body = None"
  then show "convert_checkpoints env preset km0 hm0 w =
        (Inl JSONDecodeError, w\<lparr>stdout := stdout w @ convert_header\<rparr>)"
    using convert_json_error [of w preset body env km0 hm0] by blast
next
  assume "files w (norm_path (path_join (EXTRACT_DIR preset) ''config.json'')) = Some body \<and>
    json_loads env body = Some doc \<and> build_config doc = Inr cfg \<and>
    remap_weights cfg (hf_state_dict hm0) km0 = Inl e0"
  then show "convert_checkpoints env preset km0 hm0 w =
        (Inl e0, w\<lparr>stdout := stdout w @ convert_header @
           [ConfigLine cfg, Line ''Original weights:'', KeysLine (map fst (hf_state_dict hm0))]\<rparr>)"
    using convert_remap_error [of w preset body env doc cfg hm0 km0 e0] by blast
next
  assume "all_assignments cfg (num_layers km0) = xs @ s # ys \<and>
    run_assignments (hf_state_dict hm0) xs km0 = Inr m1 \<and>
    run_assignment (hf_state_dict hm0) s m1 = Inl e0"
  then show "remap_weights cfg (hf_state_dict hm0) km0 = Inl e0"
    using remap_first_error [of cfg km0 xs s ys "hf_state_dict hm0" m1 e0] by blast
next
  assume "layers m1 (dst_layer s) = None"
  then show "run_assignment (hf_state_dict hm0) s m1 = Inl (NoSuchLayer (dst_layer s))"
    by (rule run_assignment_no_layer)
next
  assume "get_variable m1 (dst_layer s) (dst_attr s) = Inr v \<and>
    map_of (hf_state_dict hm0) (src_key s) = Some t \<and> apply_ops (ops s) t = Inr t' \<and>
    shape t' \<noteq> shape v"
  then show "run_assignment (hf_state_dict hm0) s m1 =
        Inl (ShapeMismatch (dst_layer s) (dst_attr s) (shape v) (shape t'))"
    using run_assignment_mismatch [of m1 s v "hf_state_dict hm0" t t'] by blast
next
  assume "main env preset w = (Inl e, w')"
  then show "run_script env [(''preset'', preset)] w = (1, w')"
    by (simp add: run_script_exit)
next
  assume "map_of PRESET_MAP preset = Some hf0 \<and>
    (preset \<in> dirs w \<or> \<not> path_exists w (EXTRACT_DIR preset)) \<and>
    preset @ ''/config.json'' \<notin> dirs w \<and>
    http_get env (hub_url hf0 ''config.json'') = Some config \<and>
    http_get env (hub_url hf0 ''vocab.txt'') = None"
  then show "\<exists>w1. download_files env preset hf0 w = (Inl (ConnectionError (hub_url hf0 ''vocab.txt'')), w1) \<and>
         requests_sent w1 = requests_sent w @
           [plain_get (hub_url hf0 ''config.json''), plain_get (hub_url hf0 ''vocab.txt'')] \<and>
         files w1 = (files w)(preset @ ''/config.json'' \<mapsto> config)"
    using download_vocab_offline [of preset hf0 w env config] by blast
next
  assume a: "download_files env preset hf0 w = (Inr u0, w0)"
  from download_returns_online [OF a]
  show "http_get env (hub_url hf0 ''config.json'') \<noteq> None"
    and "http_get env (hub_url hf0 ''vocab.txt'') \<noteq> None"
    by simp_all
qed

theorem errors_propagate_witness:
  "(\<exists>w'. main offline_env demo_preset demo_world =
        (Inl (ConnectionError ''https://huggingface.co/distilbert-base-uncased/raw/main/config.json''), w') \<and>
      requests_sent w' =
        [plain_get ''https://huggingface.co/distilbert-base-uncased/raw/main/config.json''] \<and>
      files w' = files demo_world \<and>
      run_script offline_env [(''preset'', demo_preset)] demo_world = (1, w')) \<and>
   (\<exists>w'. main vocab_offline_env demo_preset demo_world =
        (Inl (ConnectionError ''https://huggingface.co/distilbert-base-uncased/raw/main/vocab.txt''), w') \<and>
      requests_sent w' =
        [plain_get ''https://huggingface.co/distilbert-base-uncased/raw/main/config.json'',
         plain_get ''https://huggingface.co/distilbert-base-uncased/raw/main/vocab.txt''] \<and>
      files w' = [''distil_bert_base_en_uncased/config.json'' \<mapsto> ''{}'']) \<and>
   convert_checkpoints bad_json_env demo_preset demo_model demo_hf_model demo_fetched_world =
     (Inl JSONDecodeError, demo_fetched_world\<lparr>stdout := stdout demo_fetched_world @ convert_header\<rparr>) \<and>
   fst (convert_checkpoints demo_env demo_preset narrow_model demo_hf_model demo_fetched_world) =
     Inl (ShapeMismatch ''transformer_layer_0'' ''_feedforward_output_dense.bias'' [5] [4]) \<and>
   fst (convert_checkpoints demo_env demo_preset deep_model demo_hf_model demo_fetched_world) =
     Inl (NoSuchLayer ''transformer_layer_1'')"
proof -
  let ?url = "''https://huggingface.co/distilbert-base-uncased/raw/main/config.json''"
  have url: "hub_url ''distilbert-base-uncased'' ''config.json'' = ?url"
    by (simp add: hub_url_def)
  have p: "map_of PRESET_MAP demo_preset = Some ''distilbert-base-uncased''"
    by (simp add: PRESET_MAP_def demo_preset_def)
  have off: "http_get offline_env (hub_url ''distilbert-base-uncased'' ''config.json'') = None"
    by (simp add: offline_env_def)
  note net = errors_propagate [where env = offline_env and preset = demo_preset and w = demo_world
      and ?hf0.0 = "''distilbert-base-uncased''", THEN conjunct2, THEN conjunct1, rule_format, OF off]
  then obtain w1 where
    d: "download_files offline_env demo_preset ''distilbert-base-uncased'' demo_world =
          (Inl (ConnectionError ?url), w1)"
    and r: "requests_sent w1 = requests_sent demo_world @ [plain_get ?url]"
    and f: "files w1 = files demo_world"
    unfolding url by blast
  from p d have m: "main offline_env demo_preset demo_world = (Inl (ConnectionError ?url), w1)"
    by (subst errors_propagate [where env = offline_env and preset = demo_preset and w = demo_world
        and e = "ConnectionError ?url" and w' = w1, THEN conjunct1])
      (intro disjI2 exI [of _ "''distilbert-base-uncased''"] conjI disjI1)
  have x: "run_script offline_env [(''preset'', demo_preset)] demo_world = (1, w1)"
    using m by (intro errors_propagate [where env = offline_env and preset = demo_preset
        and w = demo_world and e = "ConnectionError ?url" and w' = w1,
        THEN conjunct2, THEN conjunct2, THEN conjunct2, THEN conjunct2, THEN conjunct2,
        THEN conjunct2, THEN conjunct2, THEN conjunct1, rule_format])
  have one: "\<exists>w'. main offline_env demo_preset demo_world = (Inl (ConnectionError ?url), w') \<and>
      requests_sent w' = [plain_get ?url] \<and> files w' = files demo_world \<and>
      run_script offline_env [(''preset'', demo_preset)] demo_world = (1, w')"
    using m r f x by (intro exI [of _ w1]) (simp add: demo_world_def)
  have cfgfile: "files demo_fetched_world (norm_path (path_join (EXTRACT_DIR demo_preset) ''config.json'')) =
      Some ''{}''"
    by code_simp
  have "json_loads bad_json_env ''{}'' = None" by (simp add: bad_json_env_def)
  with cfgfile
  have two: "convert_checkpoints bad_json_env demo_preset demo_model demo_hf_model demo_fetched_world =
     (Inl JSONDecodeError, demo_fetched_world\<lparr>stdout := stdout demo_fetched_world @ convert_header\<rparr>)"
    by (intro errors_propagate [where env = bad_json_env and preset = demo_preset
        and w = demo_fetched_world and body = "''{}''", THEN conjunct2, THEN conjunct2, THEN conjunct1,
        rule_format] conjI)
  have js: "json_loads demo_env ''{}'' = Some demo_json" "build_config demo_json = Inr demo_cfg"
    by (simp add: demo_env_def) code_simp
  have bad: "remap_weights demo_cfg (hf_state_dict demo_hf_model) narrow_model =
      Inl (ShapeMismatch ''transformer_layer_0'' ''_feedforward_output_dense.bias'' [5] [4])"
    "remap_weights demo_cfg (hf_state_dict demo_hf_model) deep_model = Inl (NoSuchLayer ''transformer_layer_1'')"
    by (rule error_ofD, code_simp)+
  note remap_err = errors_propagate [where env = demo_env and preset = demo_preset
      and w = demo_fetched_world and body = "''{}''" and ?hm0.0 = demo_hf_model
      and doc = demo_json and cfg = demo_cfg,
      THEN conjunct2, THEN conjunct2, THEN conjunct2, THEN conjunct1, rule_format]
  have "convert_checkpoints demo_env demo_preset narrow_model demo_hf_model demo_fetched_world =
     (Inl (ShapeMismatch ''transformer_layer_0'' ''_feedforward_output_dense.bias'' [5] [4]),
      demo_fetched_world\<lparr>stdout := stdout demo_fetched_world @ convert_header @
        [ConfigLine demo_cfg, Line ''Original weights:'', KeysLine (map fst (hf_state_dict demo_hf_model))]\<rparr>)"
    by (rule remap_err) (simp only: cfgfile js bad simp_thms)
  then have three: "fst (convert_checkpoints demo_env demo_preset narrow_model demo_hf_model demo_fetched_world) =
     Inl (ShapeMismatch ''transformer_layer_0'' ''_feedforward_output_dense.bias'' [5] [4])"
    by (simp only: fst_conv)
  have "convert_checkpoints demo_env demo_preset deep_model demo_hf_model demo_fetched_world =
     (Inl (NoSuchLayer ''transformer_layer_1''),
      demo_fetched_world\<lparr>stdout := stdout demo_fetched_world @ convert_header @
        [ConfigLine demo_cfg, Line ''Original weights:'', KeysLine (map fst (hf_state_dict demo_hf_model))]\<rparr>)"
    by (rule remap_err) (simp only: cfgfile js bad simp_thms)
  then have four: "fst (convert_checkpoints demo_env demo_preset deep_model demo_hf_model demo_fetched_world) =
     Inl (NoSuchLayer ''transformer_layer_1'')"
    by (simp only: fst_conv)
  let ?vurl = "''https://huggingface.co/distilbert-base-uncased/raw/main/vocab.txt''"
  have vurl: "hub_url ''distilbert-base-uncased'' ''vocab.txt'' = ?vurl"
    by (simp add: hub_url_def)
  have pre: "map_of PRESET_MAP demo_preset = Some ''distilbert-base-uncased'' \<and>
    (demo_preset \<in> dirs demo_world \<or> \<not> path_exists demo_world (EXTRACT_DIR demo_preset)) \<and>
    demo_preset @ ''/config.json'' \<notin> dirs demo_world \<and>
    http_get vocab_offline_env (hub_url ''distilbert-base-uncased'' ''config.json'') = Some ''{}'' \<and>
    http_get vocab_offline_env (hub_url ''distilbert-base-uncased'' ''vocab.txt'') = None"
    using p by (simp add: vocab_offline_env_def demo_world_def path_exists_def hub_url_def)
  from errors_propagate [where env = vocab_offline_env and preset = demo_preset and w = demo_world
      and ?hf0.0 = "''distilbert-base-uncased''" and config = "''{}''",
      THEN conjunct2, THEN conjunct2, THEN conjunct2, THEN conjunct2, THEN conjunct2,
      THEN conjunct2, THEN conjunct2, THEN conjunct2, THEN conjunct1, rule_format, OF pre]
  obtain v1 where
    vd: "download_files vocab_offline_env demo_preset ''distilbert-base-uncased'' demo_world =
          (Inl (ConnectionError ?vurl), v1)"
    and vr: "requests_sent v1 = requests_sent demo_world @ [plain_get ?url, plain_get ?vurl]"
    and vf: "files v1 = (files demo_world)(demo_preset @ ''/config.json'' \<mapsto> ''{}'')"
    unfolding url vurl by blast
  from p vd have vm: "main vocab_offline_env demo_preset demo_world = (Inl (ConnectionError ?vurl), v1)"
    by (subst errors_propagate [where env = vocab_offline_env and preset = demo_preset
        and w = demo_world and e = "ConnectionError ?vurl" and w' = v1, THEN conjunct1])
      (intro disjI2 exI [of _ "''distilbert-base-uncased''"] conjI disjI1)
  have vocab: "\<exists>w'. main vocab_offline_env demo_preset demo_world = (Inl (ConnectionError ?vurl), w') \<and>
      requests_sent w' = [plain_get ?url, plain_get ?vurl] \<and>
      files w' = [''distil_bert_base_en_uncased/config.json'' \<mapsto> ''{}'']"
    using vm vr vf by (intro exI [of _ v1]) (simp add: demo_world_def demo_preset_def)
  from one vocab two three four show ?thesis by (intro conjI)
qed

subsection \<open>The command line\<close>



end
